theory Spec2Isabelle
  imports Complex_Main
begin

section \<open>Audio blocks and helpers\<close>

text \<open>
  A \<^verbatim>\<open>juce::AudioBuffer<float>\<close> is a list of channels, each channel a list of samples.
  Samples are real numbers; where a statement is about exact reproduction of samples the
  arithmetic takes the rounding of the sample type as a parameter (section on the stereo
  imager). Processing in place becomes a function from the buffer to the updated buffer.
  Reading or writing a sample at an index beyond the channel is undefined behaviour in the
  source; statements about blocks therefore require the block to fit the buffer.
\<close>

type_synonym sample = real
type_synonym AudioBuffer = "sample list list"

text \<open>\<^verbatim>\<open>for (int i = 0; i < n; ++i) body\<close>\<close>

definition for_each :: "nat \<Rightarrow> (nat \<Rightarrow> 'a \<Rightarrow> 'a) \<Rightarrow> 'a \<Rightarrow> 'a" where
  "for_each n body s = fold body [0..<n] s"

text \<open>\<^verbatim>\<open>juce::jlimit (lowerLimit, upperLimit, valueToConstrain)\<close>\<close>

definition jlimit :: "real \<Rightarrow> real \<Rightarrow> real \<Rightarrow> real" where
  "jlimit lowerLimit upperLimit v =
     (if v < lowerLimit then lowerLimit else if upperLimit < v then upperLimit else v)"

text \<open>Utilities.h: \<^verbatim>\<open>inline float dBToGain(float dB) { return std::pow(10.0f, dB / 20.0f); }\<close>\<close>

definition dBToGain :: "real \<Rightarrow> real" where
  "dBToGain dB = 10 powr (dB / 20)"

text \<open>\<^verbatim>\<open>AudioBuffer::copyFrom (destChannel, 0, source, sourceChannel, 0, numSamples)\<close>\<close>

definition copyFrom :: "AudioBuffer \<Rightarrow> nat \<Rightarrow> AudioBuffer \<Rightarrow> nat \<Rightarrow> nat \<Rightarrow> AudioBuffer" where
  "copyFrom dest destChannel source sourceChannel numSamples =
     dest[destChannel :=
       for_each numSamples (\<lambda>i c. c[i := source ! sourceChannel ! i]) (dest ! destChannel)]"

text \<open>\<^verbatim>\<open>AudioBuffer::applyGain (gain)\<close>: every sample of every channel.\<close>

definition applyGain :: "real \<Rightarrow> AudioBuffer \<Rightarrow> AudioBuffer" where
  "applyGain gain buffer = map (map (\<lambda>x. x * gain)) buffer"

text \<open>\<^verbatim>\<open>AudioBuffer::getNumSamples()\<close>: all channels of a buffer have the same length.\<close>

definition getNumSamples :: "AudioBuffer \<Rightarrow> nat" where
  "getNumSamples buffer = (case buffer of [] \<Rightarrow> 0 | c # rest \<Rightarrow> length c)"

text \<open>A buffer of \<open>numChannels\<close> channels of \<open>numSamples\<close> samples each.\<close>

definition hasSize :: "AudioBuffer \<Rightarrow> nat \<Rightarrow> nat \<Rightarrow> bool" where
  "hasSize buffer numChannels numSamples =
     (length buffer = numChannels \<and> list_all (\<lambda>c. length c = numSamples) buffer)"

text \<open>
  Processors of the JUCE library (\<^verbatim>\<open>LinkwitzRileyFilter\<close>, \<^verbatim>\<open>IIR::Filter\<close>, \<^verbatim>\<open>Compressor\<close>,
  \<^verbatim>\<open>Reverb\<close>) are not part of the repository. Their \<^verbatim>\<open>process (context)\<close> on a replacing
  context is a parameter of the functions that call it: a function from the processor's
  state and the block to the state after the call and the processed block.

  \<open>processBlock\<close> runs such a processor on the block made of the first \<open>numSamples\<close>
  samples of the first \<open>numChannels\<close> channels of a buffer
  (\<^verbatim>\<open>AudioBlock<float> (buffer.getArrayOfWritePointers(), numChannels, numSamples)\<close>), in
  place: the processed samples replace those of the block, the rest of the buffer stays.
\<close>

definition processBlock ::
  "('p \<Rightarrow> AudioBuffer \<Rightarrow> 'p \<times> AudioBuffer) \<Rightarrow> 'p \<Rightarrow> AudioBuffer \<Rightarrow> nat \<Rightarrow> nat
     \<Rightarrow> 'p \<times> AudioBuffer" where
  "processBlock proc p buffer numChannels numSamples =
     (let (p1, block) = proc p (map (take numSamples) (take numChannels buffer))
      in (p1, for_each numChannels
                (\<lambda>ch b. b[ch := for_each numSamples (\<lambda>i c. c[i := block ! ch ! i]) (b ! ch)])
                buffer))"

section \<open>Stereo imager (CinematicAudioEnhancer.cpp) and stereo widener (DSPModules.h)\<close>




record 'c StereoImager =
  stereoWidth :: real
  monoFrequency :: real
  lowPassFilter :: 'c
  imager_currentSampleRate :: real

text \<open>
  The constructor. The coefficients object of the low-pass filter is a JUCE type; it is kept
  abstract (\<open>'c\<close>), with \<^verbatim>\<open>IIR::Coefficients<float>::makeLowPass (sampleRate, frequency)\<close>
  as the parameter \<open>makeLowPass\<close> and the default coefficients as \<open>defaultCoefficients\<close>.
  The initial width is the literal \<^verbatim>\<open>1.2f\<close> of the source, kept as the real number 1.2;
  the statements below either set the width or hold for every width.
\<close>

definition StereoImager_init :: "'c \<Rightarrow> 'c StereoImager" where
  "StereoImager_init defaultCoefficients =
     \<lparr>stereoWidth = 1.2, monoFrequency = 200, lowPassFilter = defaultCoefficients,
      imager_currentSampleRate = 44100\<rparr>"

definition StereoImager_prepare ::
  "(real \<Rightarrow> real \<Rightarrow> 'c) \<Rightarrow> real \<Rightarrow> nat \<Rightarrow> 'c StereoImager \<Rightarrow> 'c StereoImager" where
  "StereoImager_prepare makeLowPass sampleRate maxBlockSize s =
     s\<lparr>imager_currentSampleRate := sampleRate,
       lowPassFilter := makeLowPass sampleRate (monoFrequency s)\<rparr>"


definition StereoImager_setMonoFrequency ::
  "(real \<Rightarrow> real \<Rightarrow> 'c) \<Rightarrow> real \<Rightarrow> 'c StereoImager \<Rightarrow> 'c StereoImager" where
  "StereoImager_setMonoFrequency makeLowPass frequency s =
     (let s1 = s\<lparr>monoFrequency := jlimit 50 500 frequency\<rparr>
      in s1\<lparr>lowPassFilter := makeLowPass (imager_currentSampleRate s1) (monoFrequency s1)\<rparr>)"

text \<open>The body of the sample loop of \<^verbatim>\<open>StereoImager::process\<close>.\<close>

definition StereoImager_sample ::
  "(real \<Rightarrow> real) \<Rightarrow> real \<Rightarrow> sample \<Rightarrow> sample \<Rightarrow> sample \<times> sample" where
  "StereoImager_sample rnd width left right =
     (let mid = rnd (rnd (left + right) * 0.5);
          side = rnd (rnd (left - right) * 0.5);
          side = rnd (side * width)
      in (rnd (mid + side), rnd (mid - side)))"

definition StereoImager_loop ::
  "(real \<Rightarrow> real) \<Rightarrow> real \<Rightarrow> nat \<Rightarrow> sample list \<times> sample list \<Rightarrow> sample list \<times> sample list" where
  "StereoImager_loop rnd width numSamples channels =
     for_each numSamples
       (\<lambda>i (leftChannel, rightChannel).
          let (l, r) = StereoImager_sample rnd width (leftChannel ! i) (rightChannel ! i)
          in (leftChannel[i := l], rightChannel[i := r]))
       channels"

text \<open>
  \<^verbatim>\<open>StereoImager::process\<close>: no member is written, the result is the buffer. The
  low-pass filter and the mono frequency are not read.
\<close>

definition StereoImager_process ::
  "(real \<Rightarrow> real) \<Rightarrow> 'c StereoImager \<Rightarrow> AudioBuffer \<Rightarrow> nat \<Rightarrow> AudioBuffer" where
  "StereoImager_process rnd s buffer numSamples =
     (if length buffer < 2 then buffer
      else let (leftChannel, rightChannel) =
                 StereoImager_loop rnd (stereoWidth s) numSamples (buffer ! 0, buffer ! 1)
           in buffer[0 := leftChannel, 1 := rightChannel])"

text \<open>\<^verbatim>\<open>dspmodules::StereoWidener\<close>: the same loop with an output gain.\<close>

record 'c StereoWidener =
  width :: real
  widener_frequency :: real
  outputGain :: real
  bassFilter :: 'c
  widener_currentSampleRate :: real

definition StereoWidener_init :: "'c \<Rightarrow> 'c StereoWidener" where
  "StereoWidener_init defaultCoefficients =
     \<lparr>width = 1, widener_frequency = 200, outputGain = 1, bassFilter = defaultCoefficients,
      widener_currentSampleRate = 44100\<rparr>"

definition StereoWidener_setWidth :: "real \<Rightarrow> 'c StereoWidener \<Rightarrow> 'c StereoWidener" where
  "StereoWidener_setWidth w s = s\<lparr>width := jlimit 0 2 w\<rparr>"

definition StereoWidener_setOutput :: "real \<Rightarrow> 'c StereoWidener \<Rightarrow> 'c StereoWidener" where
  "StereoWidener_setOutput dB s = s\<lparr>outputGain := dBToGain (jlimit (-24) 12 dB)\<rparr>"

definition StereoWidener_sample ::
  "(real \<Rightarrow> real) \<Rightarrow> real \<Rightarrow> real \<Rightarrow> sample \<Rightarrow> sample \<Rightarrow> sample \<times> sample" where
  "StereoWidener_sample rnd w gain left right =
     (let mid = rnd (rnd (left + right) * 0.5);
          side = rnd (rnd (left - right) * 0.5);
          side = rnd (side * w)
      in (rnd (rnd (mid + side) * gain), rnd (rnd (mid - side) * gain)))"

definition StereoWidener_loop ::
  "(real \<Rightarrow> real) \<Rightarrow> real \<Rightarrow> real \<Rightarrow> nat \<Rightarrow> sample list \<times> sample list
     \<Rightarrow> sample list \<times> sample list" where
  "StereoWidener_loop rnd w gain numSamples channels =
     for_each numSamples
       (\<lambda>i (leftChannel, rightChannel).
          let (l, r) = StereoWidener_sample rnd w gain (leftChannel ! i) (rightChannel ! i)
          in (leftChannel[i := l], rightChannel[i := r]))
       channels"

definition StereoWidener_process ::
  "(real \<Rightarrow> real) \<Rightarrow> 'c StereoWidener \<Rightarrow> AudioBuffer \<Rightarrow> AudioBuffer" where
  "StereoWidener_process rnd s buffer =
     (if length buffer < 2 then buffer
      else let numSamples = length (buffer ! 0);
               (leftChannel, rightChannel) =
                 StereoWidener_loop rnd (width s) (outputGain s) numSamples
                   (buffer ! 0, buffer ! 1)
           in buffer[0 := leftChannel, 1 := rightChannel])"

section \<open>Effects and the per-track chain manager (AIFXEngine.h, AIFXEngine.cpp)\<close>

text \<open>Utilities.h: \<^verbatim>\<open>enum class FXMode { Off, DSP, AI, Hybrid }\<close>\<close>

datatype FXMode = Off | DSP | AI | Hybrid

text \<open>
  \<^verbatim>\<open>class Effect\<close> is an abstract base class with virtual \<^verbatim>\<open>process (buffer, numSamples)\<close>
  and \<^verbatim>\<open>prepare (sampleRate, maxBlockSize)\<close>. An object behind that interface is what its
  methods do: \<open>process\<close> gives the processed buffer and the object after the call,
  \<open>prepare\<close> the object after the call.
\<close>

codatatype Effect =
  Effect (process: "AudioBuffer \<Rightarrow> nat \<Rightarrow> AudioBuffer \<times> Effect")
         (prepare: "real \<Rightarrow> nat \<Rightarrow> Effect")

record TrackFX =
  mode :: FXMode
  dspEffects :: "Effect list"
  aiEffects :: "Effect list"

record AIFXEngine =
  trackFX :: "TrackFX list"
  hasOnnxEngine :: bool
  engine_currentSampleRate :: real
  engine_currentMaxBlockSize :: nat

definition NUM_TRACKS :: int where
  "NUM_TRACKS = 6"

text \<open>The constructor: \<^verbatim>\<open>std::array<TrackFX, NUM_TRACKS>\<close> of default tracks.\<close>

definition AIFXEngine_init :: "bool \<Rightarrow> AIFXEngine" where
  "AIFXEngine_init engine =
     \<lparr>trackFX = replicate (nat NUM_TRACKS) \<lparr>mode = Off, dspEffects = [], aiEffects = []\<rparr>,
      hasOnnxEngine = engine,
      engine_currentSampleRate = 44100,
      engine_currentMaxBlockSize = 512\<rparr>"

text \<open>
  \<^verbatim>\<open>for (auto& effect : effects) effect->process (buffer, numSamples);\<close>
  Every effect works on the buffer the one before it left, and is itself changed by the call.
\<close>

fun processEffects :: "Effect list \<Rightarrow> AudioBuffer \<Rightarrow> nat \<Rightarrow> Effect list \<times> AudioBuffer" where
  "processEffects [] buffer numSamples = ([], buffer)"
| "processEffects (effect # rest) buffer numSamples =
     (let (buffer1, effect1) = process effect buffer numSamples;
          (rest1, buffer2) = processEffects rest buffer1 numSamples
      in (effect1 # rest1, buffer2))"

definition AIFXEngine_processDSP ::
  "AIFXEngine \<Rightarrow> AudioBuffer \<Rightarrow> nat \<Rightarrow> nat \<Rightarrow> AIFXEngine \<times> AudioBuffer" where
  "AIFXEngine_processDSP e buffer numSamples trackIndex =
     (let track = trackFX e ! trackIndex;
          (effects, buffer1) = processEffects (dspEffects track) buffer numSamples
      in (e\<lparr>trackFX := (trackFX e)[trackIndex := track\<lparr>dspEffects := effects\<rparr>]\<rparr>, buffer1))"

definition AIFXEngine_processAI ::
  "AIFXEngine \<Rightarrow> AudioBuffer \<Rightarrow> nat \<Rightarrow> nat \<Rightarrow> AIFXEngine \<times> AudioBuffer" where
  "AIFXEngine_processAI e buffer numSamples trackIndex =
     (let track = trackFX e ! trackIndex;
          (effects, buffer1) = processEffects (aiEffects track) buffer numSamples
      in (e\<lparr>trackFX := (trackFX e)[trackIndex := track\<lparr>aiEffects := effects\<rparr>]\<rparr>, buffer1))"

definition AIFXEngine_processHybrid ::
  "AIFXEngine \<Rightarrow> AudioBuffer \<Rightarrow> nat \<Rightarrow> nat \<Rightarrow> AIFXEngine \<times> AudioBuffer" where
  "AIFXEngine_processHybrid e buffer numSamples trackIndex =
     (let (e1, buffer1) = AIFXEngine_processDSP e buffer numSamples trackIndex
      in AIFXEngine_processAI e1 buffer1 numSamples trackIndex)"

definition AIFXEngine_process ::
  "AIFXEngine \<Rightarrow> AudioBuffer \<Rightarrow> nat \<Rightarrow> int \<Rightarrow> AIFXEngine \<times> AudioBuffer" where
  "AIFXEngine_process e buffer numSamples trackIndex =
     (if trackIndex < 0 \<or> trackIndex \<ge> NUM_TRACKS then (e, buffer)
      else case mode (trackFX e ! nat trackIndex) of
             Off \<Rightarrow> (e, buffer)
           | DSP \<Rightarrow> AIFXEngine_processDSP e buffer numSamples (nat trackIndex)
           | AI \<Rightarrow> AIFXEngine_processAI e buffer numSamples (nat trackIndex)
           | Hybrid \<Rightarrow> AIFXEngine_processHybrid e buffer numSamples (nat trackIndex))"

definition AIFXEngine_setFXMode :: "int \<Rightarrow> FXMode \<Rightarrow> AIFXEngine \<Rightarrow> AIFXEngine" where
  "AIFXEngine_setFXMode trackIndex m e =
     (if trackIndex \<ge> 0 \<and> trackIndex < NUM_TRACKS
      then e\<lparr>trackFX := (trackFX e)[nat trackIndex := (trackFX e ! nat trackIndex)\<lparr>mode := m\<rparr>]\<rparr>
      else e)"

definition AIFXEngine_addDSPEffect :: "int \<Rightarrow> Effect \<Rightarrow> AIFXEngine \<Rightarrow> AIFXEngine" where
  "AIFXEngine_addDSPEffect trackIndex effect e =
     (if trackIndex \<ge> 0 \<and> trackIndex < NUM_TRACKS
      then let effect1 = prepare effect (engine_currentSampleRate e) (engine_currentMaxBlockSize e);
               track = trackFX e ! nat trackIndex
           in e\<lparr>trackFX := (trackFX e)[nat trackIndex :=
                   track\<lparr>dspEffects := dspEffects track @ [effect1]\<rparr>]\<rparr>
      else e)"

text \<open>
  \<^verbatim>\<open>addAIEffect\<close>: \<open>newAIEffect role\<close> is the object
  \<^verbatim>\<open>std::make_unique<AIEffect> (onnxEngine, modelRole)\<close> behind the Effect interface.
\<close>

definition AIFXEngine_addAIEffect ::
  "(string \<Rightarrow> Effect) \<Rightarrow> int \<Rightarrow> string \<Rightarrow> AIFXEngine \<Rightarrow> AIFXEngine" where
  "AIFXEngine_addAIEffect newAIEffect trackIndex modelRole e =
     (if trackIndex \<ge> 0 \<and> trackIndex < NUM_TRACKS \<and> hasOnnxEngine e
      then let effect1 = prepare (newAIEffect modelRole)
                           (engine_currentSampleRate e) (engine_currentMaxBlockSize e);
               track = trackFX e ! nat trackIndex
           in e\<lparr>trackFX := (trackFX e)[nat trackIndex :=
                   track\<lparr>aiEffects := aiEffects track @ [effect1]\<rparr>]\<rparr>
      else e)"

definition AIFXEngine_clearEffects :: "int \<Rightarrow> AIFXEngine \<Rightarrow> AIFXEngine" where
  "AIFXEngine_clearEffects trackIndex e =
     (if trackIndex \<ge> 0 \<and> trackIndex < NUM_TRACKS
      then e\<lparr>trackFX := (trackFX e)[nat trackIndex :=
                (trackFX e ! nat trackIndex)\<lparr>dspEffects := [], aiEffects := []\<rparr>]\<rparr>
      else e)"

text \<open>
  What the claim calls applying a list of effects in order: the first effect of the list
  processes the input, each later one the output of its predecessor.
\<close>

definition appliedInOrder :: "Effect list \<Rightarrow> nat \<Rightarrow> AudioBuffer \<Rightarrow> AudioBuffer" where
  "appliedInOrder effects numSamples buffer =
     fold (\<lambda>effect b. fst (process effect b numSamples)) effects buffer"

text \<open>Two effects that do not commute, to tell the order of application.\<close>

primcorec gainEffect :: "real \<Rightarrow> Effect" where
  "gainEffect g =
     Effect (\<lambda>buffer numSamples. (map (map (\<lambda>x. x * g)) buffer, gainEffect g))
            (\<lambda>sampleRate maxBlockSize. gainEffect g)"

primcorec offsetEffect :: "real \<Rightarrow> Effect" where
  "offsetEffect c =
     Effect (\<lambda>buffer numSamples. (map (map (\<lambda>x. x + c)) buffer, offsetEffect c))
            (\<lambda>sampleRate maxBlockSize. offsetEffect c)"

text \<open>An engine for the examples: track 0 in mode Hybrid with one DSP and one AI effect.\<close>

definition exampleEngine :: AIFXEngine where
  "exampleEngine =
     AIFXEngine_setFXMode 0 Hybrid
       (AIFXEngine_addAIEffect (\<lambda>role. offsetEffect 1) 0 ''vocal''
          (AIFXEngine_addDSPEffect 0 (gainEffect 2) (AIFXEngine_init True)))"

section \<open>The inference backend and the AI effect bridge (OnnxEngine.cpp, AIFXEngine.cpp)\<close>

text \<open>
  A C++ call either returns or throws: results are sums with the exception on the left.
  \<^verbatim>\<open>Ort::Exception\<close> is the exception type of the ONNX runtime.
\<close>

datatype OrtException = OrtException

definition try_catch :: "('e + 'a) \<Rightarrow> ('e \<Rightarrow> 'e + 'a) \<Rightarrow> 'e + 'a" where
  "try_catch body handler = (case body of Inl e \<Rightarrow> handler e | Inr v \<Rightarrow> Inr v)"

text \<open>
  \<^verbatim>\<open>class OnnxModel\<close>. The session is an object of the ONNX runtime: \<open>None\<close> is the null
  pointer, \<open>Some run\<close> a session whose inference (tensor creation, \<^verbatim>\<open>session->Run\<close> and the
  extraction of the output tensor) maps the flat input and the shape to the flat output, or
  throws.
\<close>

record OnnxModel =
  modelLoaded :: bool
  session :: "(sample list \<Rightarrow> int list \<Rightarrow> OrtException + sample list) option"
  model_inputShape :: "int list"

definition OnnxModel_isReady :: "OnnxModel \<Rightarrow> bool" where
  "OnnxModel_isReady m = modelLoaded m"

text \<open>The result is the returned flag together with the contents of \<open>outputData\<close>.\<close>

definition OnnxModel_runInference ::
  "OnnxModel \<Rightarrow> sample list \<Rightarrow> int list \<Rightarrow> sample list \<Rightarrow> OrtException + bool \<times> sample list" where
  "OnnxModel_runInference m inputData inputShape outputData =
     (if \<not> modelLoaded m \<or> session m = None then Inr (False, outputData)
      else try_catch
             (let actualShape = (if inputShape = [] then model_inputShape m else inputShape)
              in case the (session m) inputData actualShape of
                   Inl e \<Rightarrow> Inl e
                 | Inr floatArray \<Rightarrow> Inr (True, floatArray))
             (\<lambda>e. Inr (False, outputData)))"

text \<open>\<^verbatim>\<open>class OnnxEngine\<close>: \<^verbatim>\<open>std::unordered_map<juce::String, std::unique_ptr<OnnxModel>>\<close>.\<close>

record OnnxEngine =
  models :: "string \<rightharpoonup> OnnxModel"

definition OnnxEngine_isModelReady :: "OnnxEngine \<Rightarrow> string \<Rightarrow> bool" where
  "OnnxEngine_isModelReady e role =
     (case models e role of None \<Rightarrow> False | Some m \<Rightarrow> OnnxModel_isReady m)"

definition OnnxEngine_runInference ::
  "OnnxEngine \<Rightarrow> string \<Rightarrow> sample list \<Rightarrow> int list \<Rightarrow> sample list
     \<Rightarrow> OrtException + bool \<times> sample list" where
  "OnnxEngine_runInference e role inputData inputShape outputData =
     (case models e role of
        Some m \<Rightarrow>
          if OnnxModel_isReady m then OnnxModel_runInference m inputData inputShape outputData
          else Inr (False, outputData)
      | None \<Rightarrow> Inr (False, outputData))"

text \<open>
  \<^verbatim>\<open>class AIEffect\<close>. \<open>onnxEngine\<close> is the pointer to the backend: \<open>None\<close> is the null pointer,
  \<open>Some e\<close> the backend in the state it has during the call.
\<close>

record AIEffect =
  onnxEngine :: "OnnxEngine option"
  modelRole :: string
  aifx_currentSampleRate :: real
  inputBuffer :: "sample list"
  outputBuffer :: "sample list"

definition AIEffect_init :: "OnnxEngine option \<Rightarrow> string \<Rightarrow> AIEffect" where
  "AIEffect_init engine role =
     \<lparr>onnxEngine = engine, modelRole = role, aifx_currentSampleRate = 44100,
      inputBuffer = [], outputBuffer = []\<rparr>"

definition AIEffect_prepare :: "real \<Rightarrow> nat \<Rightarrow> AIEffect \<Rightarrow> AIEffect" where
  "AIEffect_prepare sampleRate maxBlockSize fx =
     fx\<lparr>aifx_currentSampleRate := sampleRate,
        inputBuffer := take (maxBlockSize * 2) (inputBuffer fx)
                       @ replicate (maxBlockSize * 2 - length (inputBuffer fx)) 0,
        outputBuffer := take (maxBlockSize * 2) (outputBuffer fx)
                        @ replicate (maxBlockSize * 2 - length (outputBuffer fx)) 0\<rparr>"

text \<open>Flattening, channel after channel: \<^verbatim>\<open>inputBuffer.push_back (channelData[i])\<close>.\<close>

definition flattenBuffer :: "AudioBuffer \<Rightarrow> nat \<Rightarrow> sample list" where
  "flattenBuffer buffer numSamples =
     for_each (length buffer)
       (\<lambda>channel input.
          for_each numSamples (\<lambda>i input. input @ [buffer ! channel ! i]) input)
       []"

text \<open>Copying the output back, as long as \<open>outputIndex\<close> is inside the output.\<close>

definition writeBack :: "sample list \<Rightarrow> nat \<Rightarrow> AudioBuffer \<Rightarrow> AudioBuffer" where
  "writeBack output numSamples buffer =
     fst (for_each (length buffer)
            (\<lambda>channel state.
               for_each numSamples
                 (\<lambda>i (b, outputIndex).
                    if outputIndex < length output
                    then (b[channel := (b ! channel)[i := output ! outputIndex]], outputIndex + 1)
                    else (b, outputIndex))
                 state)
            (buffer, 0))"

definition AIEffect_process ::
  "AIEffect \<Rightarrow> AudioBuffer \<Rightarrow> nat \<Rightarrow> OrtException + AIEffect \<times> AudioBuffer" where
  "AIEffect_process fx buffer numSamples =
     (if onnxEngine fx = None \<or> \<not> OnnxEngine_isModelReady (the (onnxEngine fx)) (modelRole fx)
      then Inr (fx, buffer)
      else let numChannels = length buffer;
               input = flattenBuffer buffer numSamples;
               shape = [1, int numChannels, int numSamples]
           in case OnnxEngine_runInference (the (onnxEngine fx)) (modelRole fx)
                     input shape (outputBuffer fx) of
                Inl e \<Rightarrow> Inl e
              | Inr (ok, output) \<Rightarrow>
                  let fx1 = fx\<lparr>inputBuffer := input, outputBuffer := output\<rparr>
                  in if ok then Inr (fx1, writeBack output numSamples buffer)
                     else Inr (fx1, buffer))"

text \<open>The inference call of \<open>process\<close> fails: it returns false.\<close>

definition inferenceFails :: "AIEffect \<Rightarrow> AudioBuffer \<Rightarrow> nat \<Rightarrow> bool" where
  "inferenceFails fx buffer numSamples =
     (case OnnxEngine_runInference (the (onnxEngine fx)) (modelRole fx)
             (flattenBuffer buffer numSamples)
             [1, int (length buffer), int numSamples] (outputBuffer fx) of
        Inl e \<Rightarrow> False
      | Inr (ok, output) \<Rightarrow> \<not> ok)"

text \<open>Backends for the examples: a session that throws, and one that negates its input.\<close>

definition throwingModel :: OnnxModel where
  "throwingModel =
     \<lparr>modelLoaded = True, session = Some (\<lambda>input shape. Inl OrtException),
      model_inputShape = []\<rparr>"

definition negatingModel :: OnnxModel where
  "negatingModel =
     \<lparr>modelLoaded = True, session = Some (\<lambda>input shape. Inr (map uminus input)),
      model_inputShape = []\<rparr>"

definition exampleAIEffect :: "OnnxModel \<Rightarrow> AIEffect" where
  "exampleAIEffect m = AIEffect_init (Some \<lparr>models = [''vocal'' \<mapsto> m]\<rparr>) ''vocal''"

section \<open>The mastering orchestrator (CinematicAudioEnhancer.cpp)\<close>

text \<open>
  The eleven stages are member objects of eleven classes, each with
  \<^verbatim>\<open>process (buffer, numSamples)\<close> and its parameter setters. For the orchestrator a stage is
  what these methods do: \<open>run\<close> gives the processed buffer and the stage after the call,
  \<open>setParameter name v\<close> the stage after calling the setter \<open>name\<close> with the value \<open>v\<close>.
\<close>

codatatype Stage =
  Stage (run: "AudioBuffer \<Rightarrow> nat \<Rightarrow> AudioBuffer \<times> Stage")
        (setParameter: "string \<Rightarrow> real \<Rightarrow> Stage")

record CinematicAudioEnhancer =
  highPassFilter :: Stage
  presenceEQ :: Stage
  vocalCompressor :: Stage
  cinematicReverb :: Stage
  subtleDelay :: Stage
  modulationEffect :: Stage
  warmSaturation :: Stage
  multibandCompressor :: Stage
  stereoImager :: Stage
  loudnessNormalizer :: Stage
  finalLimiter :: Stage
  highPassEnabled :: bool
  presenceEQEnabled :: bool
  vocalCompressorEnabled :: bool
  cinematicReverbEnabled :: bool
  subtleDelayEnabled :: bool
  modulationEnabled :: bool
  saturationEnabled :: bool
  multibandCompressorEnabled :: bool
  stereoImagerEnabled :: bool
  loudnessNormalizerEnabled :: bool
  finalLimiterEnabled :: bool

text \<open>\<^verbatim>\<open>if (enabled) stage.process (buffer, numSamples);\<close>\<close>

definition processIf :: "bool \<Rightarrow> Stage \<Rightarrow> AudioBuffer \<Rightarrow> nat \<Rightarrow> AudioBuffer \<times> Stage" where
  "processIf enabled stage buffer numSamples =
     (if enabled then run stage buffer numSamples else (buffer, stage))"

definition CinematicAudioEnhancer_process ::
  "CinematicAudioEnhancer \<Rightarrow> AudioBuffer \<Rightarrow> nat \<Rightarrow> CinematicAudioEnhancer \<times> AudioBuffer" where
  "CinematicAudioEnhancer_process e buffer numSamples =
     (let (b, hp) = processIf (highPassEnabled e) (highPassFilter e) buffer numSamples;
          (b, eq) = processIf (presenceEQEnabled e) (presenceEQ e) b numSamples;
          (b, vc) = processIf (vocalCompressorEnabled e) (vocalCompressor e) b numSamples;
          (b, md) = processIf (modulationEnabled e) (modulationEffect e) b numSamples;
          (b, ws) = processIf (saturationEnabled e) (warmSaturation e) b numSamples;
          (b, sd) = processIf (subtleDelayEnabled e) (subtleDelay e) b numSamples;
          (b, cr) = processIf (cinematicReverbEnabled e) (cinematicReverb e) b numSamples;
          (b, mb) = processIf (multibandCompressorEnabled e) (multibandCompressor e) b numSamples;
          (b, si) = processIf (stereoImagerEnabled e) (stereoImager e) b numSamples;
          (b, ln) = processIf (loudnessNormalizerEnabled e) (loudnessNormalizer e) b numSamples;
          (b, fl) = processIf (finalLimiterEnabled e) (finalLimiter e) b numSamples
      in (e\<lparr>highPassFilter := hp, presenceEQ := eq, vocalCompressor := vc,
             modulationEffect := md, warmSaturation := ws, subtleDelay := sd,
             cinematicReverb := cr, multibandCompressor := mb, stereoImager := si,
             loudnessNormalizer := ln, finalLimiter := fl\<rparr>, b))"

subsection \<open>Setters\<close>

definition setHighPassEnabled :: "bool \<Rightarrow> CinematicAudioEnhancer \<Rightarrow> CinematicAudioEnhancer" where
  "setHighPassEnabled enabled e = e\<lparr>highPassEnabled := enabled\<rparr>"

definition setHighPassCutoff :: "real \<Rightarrow> CinematicAudioEnhancer \<Rightarrow> CinematicAudioEnhancer" where
  "setHighPassCutoff frequency e =
     e\<lparr>highPassFilter := setParameter (highPassFilter e) ''setCutoffFrequency'' frequency\<rparr>"

definition setPresenceEQEnabled :: "bool \<Rightarrow> CinematicAudioEnhancer \<Rightarrow> CinematicAudioEnhancer" where
  "setPresenceEQEnabled enabled e = e\<lparr>presenceEQEnabled := enabled\<rparr>"

definition setPresenceFrequency :: "real \<Rightarrow> CinematicAudioEnhancer \<Rightarrow> CinematicAudioEnhancer" where
  "setPresenceFrequency frequency e =
     e\<lparr>presenceEQ := setParameter (presenceEQ e) ''setFrequency'' frequency\<rparr>"

definition setPresenceGain :: "real \<Rightarrow> CinematicAudioEnhancer \<Rightarrow> CinematicAudioEnhancer" where
  "setPresenceGain dB e = e\<lparr>presenceEQ := setParameter (presenceEQ e) ''setGain'' dB\<rparr>"

definition setVocalCompressorEnabled ::
  "bool \<Rightarrow> CinematicAudioEnhancer \<Rightarrow> CinematicAudioEnhancer" where
  "setVocalCompressorEnabled enabled e = e\<lparr>vocalCompressorEnabled := enabled\<rparr>"

definition setVocalCompressorThreshold ::
  "real \<Rightarrow> CinematicAudioEnhancer \<Rightarrow> CinematicAudioEnhancer" where
  "setVocalCompressorThreshold dB e =
     e\<lparr>vocalCompressor := setParameter (vocalCompressor e) ''setThreshold'' dB\<rparr>"

definition setVocalCompressorRatio ::
  "real \<Rightarrow> CinematicAudioEnhancer \<Rightarrow> CinematicAudioEnhancer" where
  "setVocalCompressorRatio ratio e =
     e\<lparr>vocalCompressor := setParameter (vocalCompressor e) ''setRatio'' ratio\<rparr>"

definition setCinematicReverbEnabled ::
  "bool \<Rightarrow> CinematicAudioEnhancer \<Rightarrow> CinematicAudioEnhancer" where
  "setCinematicReverbEnabled enabled e = e\<lparr>cinematicReverbEnabled := enabled\<rparr>"

definition setCinematicReverbSize :: "real \<Rightarrow> CinematicAudioEnhancer \<Rightarrow> CinematicAudioEnhancer" where
  "setCinematicReverbSize roomSize e =
     e\<lparr>cinematicReverb := setParameter (cinematicReverb e) ''setRoomSize'' roomSize\<rparr>"

definition setCinematicReverbMix :: "real \<Rightarrow> CinematicAudioEnhancer \<Rightarrow> CinematicAudioEnhancer" where
  "setCinematicReverbMix mix e =
     e\<lparr>cinematicReverb :=
         setParameter (setParameter (cinematicReverb e) ''setWetLevel'' mix)
           ''setDryLevel'' (1 - mix)\<rparr>"

definition setCinematicReverbPreDelay ::
  "real \<Rightarrow> CinematicAudioEnhancer \<Rightarrow> CinematicAudioEnhancer" where
  "setCinematicReverbPreDelay ms e =
     e\<lparr>cinematicReverb := setParameter (cinematicReverb e) ''setPreDelay'' ms\<rparr>"

definition setSubtleDelayEnabled :: "bool \<Rightarrow> CinematicAudioEnhancer \<Rightarrow> CinematicAudioEnhancer" where
  "setSubtleDelayEnabled enabled e = e\<lparr>subtleDelayEnabled := enabled\<rparr>"

definition setSubtleDelayTime :: "real \<Rightarrow> CinematicAudioEnhancer \<Rightarrow> CinematicAudioEnhancer" where
  "setSubtleDelayTime ms e = e\<lparr>subtleDelay := setParameter (subtleDelay e) ''setDelayTime'' ms\<rparr>"

definition setSubtleDelayMix :: "real \<Rightarrow> CinematicAudioEnhancer \<Rightarrow> CinematicAudioEnhancer" where
  "setSubtleDelayMix mix e = e\<lparr>subtleDelay := setParameter (subtleDelay e) ''setMix'' mix\<rparr>"

definition setModulationEnabled :: "bool \<Rightarrow> CinematicAudioEnhancer \<Rightarrow> CinematicAudioEnhancer" where
  "setModulationEnabled enabled e = e\<lparr>modulationEnabled := enabled\<rparr>"

definition setModulationRate :: "real \<Rightarrow> CinematicAudioEnhancer \<Rightarrow> CinematicAudioEnhancer" where
  "setModulationRate hz e =
     e\<lparr>modulationEffect := setParameter (modulationEffect e) ''setRate'' hz\<rparr>"

definition setModulationDepth :: "real \<Rightarrow> CinematicAudioEnhancer \<Rightarrow> CinematicAudioEnhancer" where
  "setModulationDepth depth e =
     e\<lparr>modulationEffect := setParameter (modulationEffect e) ''setDepth'' depth\<rparr>"

definition setModulationMix :: "real \<Rightarrow> CinematicAudioEnhancer \<Rightarrow> CinematicAudioEnhancer" where
  "setModulationMix mix e =
     e\<lparr>modulationEffect := setParameter (modulationEffect e) ''setMix'' mix\<rparr>"

definition setSaturationEnabled :: "bool \<Rightarrow> CinematicAudioEnhancer \<Rightarrow> CinematicAudioEnhancer" where
  "setSaturationEnabled enabled e = e\<lparr>saturationEnabled := enabled\<rparr>"

definition setSaturationDrive :: "real \<Rightarrow> CinematicAudioEnhancer \<Rightarrow> CinematicAudioEnhancer" where
  "setSaturationDrive drive e =
     e\<lparr>warmSaturation := setParameter (warmSaturation e) ''setDrive'' drive\<rparr>"

definition setMultibandCompressorEnabled ::
  "bool \<Rightarrow> CinematicAudioEnhancer \<Rightarrow> CinematicAudioEnhancer" where
  "setMultibandCompressorEnabled enabled e = e\<lparr>multibandCompressorEnabled := enabled\<rparr>"

definition setStereoImagerEnabled :: "bool \<Rightarrow> CinematicAudioEnhancer \<Rightarrow> CinematicAudioEnhancer" where
  "setStereoImagerEnabled enabled e = e\<lparr>stereoImagerEnabled := enabled\<rparr>"

definition setStereoWidth :: "real \<Rightarrow> CinematicAudioEnhancer \<Rightarrow> CinematicAudioEnhancer" where
  "setStereoWidth w e = e\<lparr>stereoImager := setParameter (stereoImager e) ''setWidth'' w\<rparr>"

definition setLoudnessNormalizerEnabled ::
  "bool \<Rightarrow> CinematicAudioEnhancer \<Rightarrow> CinematicAudioEnhancer" where
  "setLoudnessNormalizerEnabled enabled e = e\<lparr>loudnessNormalizerEnabled := enabled\<rparr>"

definition setTargetLUFS :: "real \<Rightarrow> CinematicAudioEnhancer \<Rightarrow> CinematicAudioEnhancer" where
  "setTargetLUFS lufs e =
     e\<lparr>loudnessNormalizer := setParameter (loudnessNormalizer e) ''setTargetLUFS'' lufs\<rparr>"

definition setFinalLimiterEnabled :: "bool \<Rightarrow> CinematicAudioEnhancer \<Rightarrow> CinematicAudioEnhancer" where
  "setFinalLimiterEnabled enabled e = e\<lparr>finalLimiterEnabled := enabled\<rparr>"

definition setLimiterCeiling :: "real \<Rightarrow> CinematicAudioEnhancer \<Rightarrow> CinematicAudioEnhancer" where
  "setLimiterCeiling dB e = e\<lparr>finalLimiter := setParameter (finalLimiter e) ''setCeiling'' dB\<rparr>"

subsection \<open>Presets\<close>

text \<open>Setter calls in sequence: \<open>calls [f, g, h] e\<close> is \<open>f\<close>, then \<open>g\<close>, then \<open>h\<close>.\<close>

definition calls :: "('a \<Rightarrow> 'a) list \<Rightarrow> 'a \<Rightarrow> 'a" where
  "calls fs e = fold (\<lambda>f x. f x) fs e"

definition applyCinematicVocalPreset :: "CinematicAudioEnhancer \<Rightarrow> CinematicAudioEnhancer" where
  "applyCinematicVocalPreset =
     calls [setHighPassEnabled True, setHighPassCutoff 80,
            setPresenceEQEnabled True, setPresenceFrequency 4000, setPresenceGain 3,
            setVocalCompressorEnabled True, setVocalCompressorThreshold (-18),
            setVocalCompressorRatio 2,
            setCinematicReverbEnabled True, setCinematicReverbSize 0.8,
            setCinematicReverbMix 0.25, setCinematicReverbPreDelay 30,
            setSubtleDelayEnabled True, setSubtleDelayTime 300, setSubtleDelayMix 0.15,
            setModulationEnabled False, setSaturationEnabled False,
            setMultibandCompressorEnabled True,
            setStereoImagerEnabled True, setStereoWidth 1.2,
            setLoudnessNormalizerEnabled True, setTargetLUFS (-14),
            setFinalLimiterEnabled True, setLimiterCeiling (-0.1)]"

definition applyCinematicMasteringPreset :: "CinematicAudioEnhancer \<Rightarrow> CinematicAudioEnhancer" where
  "applyCinematicMasteringPreset =
     calls [setHighPassEnabled False, setPresenceEQEnabled False,
            setVocalCompressorEnabled False, setCinematicReverbEnabled False,
            setSubtleDelayEnabled False,
            setModulationEnabled False, setSaturationEnabled True, setSaturationDrive 0.1,
            setMultibandCompressorEnabled True,
            setStereoImagerEnabled True, setStereoWidth 1.3,
            setLoudnessNormalizerEnabled True, setTargetLUFS (-14),
            setFinalLimiterEnabled True, setLimiterCeiling (-0.1)]"

definition applyViralAppealPreset :: "CinematicAudioEnhancer \<Rightarrow> CinematicAudioEnhancer" where
  "applyViralAppealPreset =
     calls [setHighPassEnabled True, setHighPassCutoff 100,
            setPresenceEQEnabled True, setPresenceFrequency 5000, setPresenceGain 4,
            setVocalCompressorEnabled True, setVocalCompressorThreshold (-15),
            setVocalCompressorRatio 3,
            setCinematicReverbEnabled True, setCinematicReverbSize 0.5,
            setCinematicReverbMix 0.2, setCinematicReverbPreDelay 20,
            setSubtleDelayEnabled True, setSubtleDelayTime 250, setSubtleDelayMix 0.1,
            setModulationEnabled True, setModulationRate 0.3, setModulationDepth 0.2,
            setModulationMix 0.15,
            setSaturationEnabled True, setSaturationDrive 0.15,
            setMultibandCompressorEnabled True,
            setStereoImagerEnabled True, setStereoWidth 1.4,
            setLoudnessNormalizerEnabled True, setTargetLUFS (-12),
            setFinalLimiterEnabled True, setLimiterCeiling (-0.1)]"

datatype Preset = CinematicVocal | CinematicMastering | ViralAppeal

fun applyPreset :: "Preset \<Rightarrow> CinematicAudioEnhancer \<Rightarrow> CinematicAudioEnhancer" where
  "applyPreset CinematicVocal = applyCinematicVocalPreset"
| "applyPreset CinematicMastering = applyCinematicMasteringPreset"
| "applyPreset ViralAppeal = applyViralAppealPreset"

subsection \<open>The fixed order, as the specification words it\<close>

datatype StageId =
  HighPass | PresenceEQ | GentleCompressor | Modulation | Saturation | Delay | Reverb
  | MultibandComp | StereoImaging | LoudnessNorm | FinalLimit

definition stageOrder :: "StageId list" where
  "stageOrder = [HighPass, PresenceEQ, GentleCompressor, Modulation, Saturation, Delay, Reverb,
                 MultibandComp, StereoImaging, LoudnessNorm, FinalLimit]"

fun stageEnabled :: "CinematicAudioEnhancer \<Rightarrow> StageId \<Rightarrow> bool" where
  "stageEnabled e HighPass = highPassEnabled e"
| "stageEnabled e PresenceEQ = presenceEQEnabled e"
| "stageEnabled e GentleCompressor = vocalCompressorEnabled e"
| "stageEnabled e Modulation = modulationEnabled e"
| "stageEnabled e Saturation = saturationEnabled e"
| "stageEnabled e Delay = subtleDelayEnabled e"
| "stageEnabled e Reverb = cinematicReverbEnabled e"
| "stageEnabled e MultibandComp = multibandCompressorEnabled e"
| "stageEnabled e StereoImaging = stereoImagerEnabled e"
| "stageEnabled e LoudnessNorm = loudnessNormalizerEnabled e"
| "stageEnabled e FinalLimit = finalLimiterEnabled e"

fun stageOf :: "CinematicAudioEnhancer \<Rightarrow> StageId \<Rightarrow> Stage" where
  "stageOf e HighPass = highPassFilter e"
| "stageOf e PresenceEQ = presenceEQ e"
| "stageOf e GentleCompressor = vocalCompressor e"
| "stageOf e Modulation = modulationEffect e"
| "stageOf e Saturation = warmSaturation e"
| "stageOf e Delay = subtleDelay e"
| "stageOf e Reverb = cinematicReverb e"
| "stageOf e MultibandComp = multibandCompressor e"
| "stageOf e StereoImaging = stereoImager e"
| "stageOf e LoudnessNorm = loudnessNormalizer e"
| "stageOf e FinalLimit = finalLimiter e"

text \<open>The stages of the list \<open>ids\<close> applied one after the other, each to the output of the
  one before.\<close>

definition stagesApplied ::
  "CinematicAudioEnhancer \<Rightarrow> StageId list \<Rightarrow> nat \<Rightarrow> AudioBuffer \<Rightarrow> AudioBuffer" where
  "stagesApplied e ids numSamples buffer =
     fold (\<lambda>stage b. fst (run (stageOf e stage) b numSamples)) ids buffer"

text \<open>
  What a preset may do, as the specification words it: set flags and stage parameters.
  \<open>paramsApplied ps stage\<close> is the stage after the setter calls \<open>ps\<close> (name and value), in
  sequence; \<open>presetParameters\<close> lists, for each preset and each stage, the setter calls the
  preset makes on that stage, \<open>presetFlag\<close> the flag it gives the stage.
\<close>

definition paramsApplied :: "(string \<times> real) list \<Rightarrow> Stage \<Rightarrow> Stage" where
  "paramsApplied ps stage = fold (\<lambda>p s. setParameter s (fst p) (snd p)) ps stage"

fun presetParameters :: "Preset \<Rightarrow> StageId \<Rightarrow> (string \<times> real) list" where
  "presetParameters CinematicVocal HighPass = [(''setCutoffFrequency'', 80)]"
| "presetParameters CinematicVocal PresenceEQ = [(''setFrequency'', 4000), (''setGain'', 3)]"
| "presetParameters CinematicVocal GentleCompressor = [(''setThreshold'', -18), (''setRatio'', 2)]"
| "presetParameters CinematicVocal Reverb =
     [(''setRoomSize'', 0.8), (''setWetLevel'', 0.25), (''setDryLevel'', 1 - 0.25),
      (''setPreDelay'', 30)]"
| "presetParameters CinematicVocal Delay = [(''setDelayTime'', 300), (''setMix'', 0.15)]"
| "presetParameters CinematicVocal StereoImaging = [(''setWidth'', 1.2)]"
| "presetParameters CinematicVocal LoudnessNorm = [(''setTargetLUFS'', -14)]"
| "presetParameters CinematicVocal FinalLimit = [(''setCeiling'', -0.1)]"
| "presetParameters CinematicVocal Modulation = []"
| "presetParameters CinematicVocal Saturation = []"
| "presetParameters CinematicVocal MultibandComp = []"
| "presetParameters CinematicMastering Saturation = [(''setDrive'', 0.1)]"
| "presetParameters CinematicMastering StereoImaging = [(''setWidth'', 1.3)]"
| "presetParameters CinematicMastering LoudnessNorm = [(''setTargetLUFS'', -14)]"
| "presetParameters CinematicMastering FinalLimit = [(''setCeiling'', -0.1)]"
| "presetParameters CinematicMastering HighPass = []"
| "presetParameters CinematicMastering PresenceEQ = []"
| "presetParameters CinematicMastering GentleCompressor = []"
| "presetParameters CinematicMastering Modulation = []"
| "presetParameters CinematicMastering Delay = []"
| "presetParameters CinematicMastering Reverb = []"
| "presetParameters CinematicMastering MultibandComp = []"
| "presetParameters ViralAppeal HighPass = [(''setCutoffFrequency'', 100)]"
| "presetParameters ViralAppeal PresenceEQ = [(''setFrequency'', 5000), (''setGain'', 4)]"
| "presetParameters ViralAppeal GentleCompressor = [(''setThreshold'', -15), (''setRatio'', 3)]"
| "presetParameters ViralAppeal Reverb =
     [(''setRoomSize'', 0.5), (''setWetLevel'', 0.2), (''setDryLevel'', 1 - 0.2),
      (''setPreDelay'', 20)]"
| "presetParameters ViralAppeal Delay = [(''setDelayTime'', 250), (''setMix'', 0.1)]"
| "presetParameters ViralAppeal Modulation =
     [(''setRate'', 0.3), (''setDepth'', 0.2), (''setMix'', 0.15)]"
| "presetParameters ViralAppeal Saturation = [(''setDrive'', 0.15)]"
| "presetParameters ViralAppeal StereoImaging = [(''setWidth'', 1.4)]"
| "presetParameters ViralAppeal LoudnessNorm = [(''setTargetLUFS'', -12)]"
| "presetParameters ViralAppeal FinalLimit = [(''setCeiling'', -0.1)]"
| "presetParameters ViralAppeal MultibandComp = []"

fun presetFlag :: "Preset \<Rightarrow> StageId \<Rightarrow> bool" where
  "presetFlag CinematicVocal stage = (stage \<noteq> Modulation \<and> stage \<noteq> Saturation)"
| "presetFlag CinematicMastering stage =
     (stage = Saturation \<or> stage = MultibandComp \<or> stage = StereoImaging \<or>
      stage = LoudnessNorm \<or> stage = FinalLimit)"
| "presetFlag ViralAppeal stage = True"

text \<open>
  Stages for the examples: a gain and an offset with their parameter fixed, and a gain that
  every setter call replaces by the value set.
\<close>

primcorec gainStage :: "real \<Rightarrow> Stage" where
  "gainStage g =
     Stage (\<lambda>buffer numSamples. (map (map (\<lambda>x. x * g)) buffer, gainStage g))
           (\<lambda>name v. gainStage g)"

primcorec offsetStage :: "real \<Rightarrow> Stage" where
  "offsetStage c =
     Stage (\<lambda>buffer numSamples. (map (map (\<lambda>x. x + c)) buffer, offsetStage c))
           (\<lambda>name v. offsetStage c)"

primcorec tunableGainStage :: "real \<Rightarrow> Stage" where
  "tunableGainStage g =
     Stage (\<lambda>buffer numSamples. (map (map (\<lambda>x. x * g)) buffer, tunableGainStage g))
           (\<lambda>name v. tunableGainStage v)"

text \<open>
  An orchestrator for the examples: the high-pass multiplies by its parameter (2 at first),
  the presence EQ adds 3, the modulation adds 100, the saturation multiplies by 10, the
  limiter adds 1, the other stages leave the block as it is; only the modulation is enabled.
\<close>

definition exampleEnhancer :: CinematicAudioEnhancer where
  "exampleEnhancer =
     \<lparr>highPassFilter = tunableGainStage 2, presenceEQ = offsetStage 3,
      vocalCompressor = gainStage 1,
      cinematicReverb = gainStage 1, subtleDelay = gainStage 1,
      modulationEffect = offsetStage 100, warmSaturation = gainStage 10,
      multibandCompressor = gainStage 1, stereoImager = gainStage 1,
      loudnessNormalizer = gainStage 1, finalLimiter = offsetStage 1,
      highPassEnabled = False, presenceEQEnabled = False, vocalCompressorEnabled = False,
      cinematicReverbEnabled = False, subtleDelayEnabled = False, modulationEnabled = True,
      saturationEnabled = False, multibandCompressorEnabled = False,
      stereoImagerEnabled = False, loudnessNormalizerEnabled = False,
      finalLimiterEnabled = False\<rparr>"

section \<open>Multiband compressor (DSPModules.h and CinematicAudioEnhancer.cpp)\<close>

text \<open>
  Both classes have the same members. \<open>'f\<close> is the state of a crossover filter, \<open>'c\<close> the
  state of a band compressor.
\<close>

record ('f, 'c) MultibandCompressor =
  lowCrossover :: 'f
  highCrossover :: 'f
  lowBandCompressor :: 'c
  midBandCompressor :: 'c
  highBandCompressor :: 'c
  lowBandBuffer :: AudioBuffer
  midBandBuffer :: AudioBuffer
  highBandBuffer :: AudioBuffer

text \<open>
  The band buffers as \<open>prepare\<close> allocates them
  (\<^verbatim>\<open>lowBandBuffer.setSize (numChannels, maximumBlockSize)\<close>, two channels in the class of
  CinematicAudioEnhancer.cpp); their contents after \<^verbatim>\<open>setSize\<close> are taken as zero.
\<close>

definition MultibandCompressor_allocate ::
  "nat \<Rightarrow> nat \<Rightarrow> ('f, 'c) MultibandCompressor \<Rightarrow> ('f, 'c) MultibandCompressor" where
  "MultibandCompressor_allocate numChannels maximumBlockSize s =
     s\<lparr>lowBandBuffer := replicate numChannels (replicate maximumBlockSize 0),
       midBandBuffer := replicate numChannels (replicate maximumBlockSize 0),
       highBandBuffer := replicate numChannels (replicate maximumBlockSize 0)\<rparr>"

subsection \<open>\<^verbatim>\<open>dspmodules::MultibandCompressor::process\<close>\<close>

text \<open>
  The first half of \<open>process\<close>, up to and including the computation of the mid band: the
  three band buffers before the per-band compression. The crossover filters run on the whole
  band buffers (\<^verbatim>\<open>AudioBlock<float> lowBlock (lowBandBuffer)\<close>).
\<close>

definition dsp_MultibandCompressor_split ::
  "('f \<Rightarrow> AudioBuffer \<Rightarrow> 'f \<times> AudioBuffer) \<Rightarrow> ('f, 'c) MultibandCompressor \<Rightarrow> AudioBuffer
     \<Rightarrow> ('f, 'c) MultibandCompressor" where
  "dsp_MultibandCompressor_split crossover s buffer =
     (let numSamples = getNumSamples buffer;
          numChannels = length buffer;
          (low, mid, high) =
            for_each numChannels
              (\<lambda>ch (low, mid, high).
                 (copyFrom low ch buffer ch numSamples,
                  copyFrom mid ch buffer ch numSamples,
                  copyFrom high ch buffer ch numSamples))
              (lowBandBuffer s, midBandBuffer s, highBandBuffer s);
          (lowCrossover1, low) = crossover (lowCrossover s) low;
          (highCrossover1, high) = crossover (highCrossover s) high;
          mid = for_each numChannels
                  (\<lambda>ch m. m[ch := for_each numSamples
                                     (\<lambda>i midData.
                                        midData[i := buffer ! ch ! i - low ! ch ! i - high ! ch ! i])
                                     (m ! ch)])
                  mid
      in s\<lparr>lowCrossover := lowCrossover1, highCrossover := highCrossover1,
            lowBandBuffer := low, midBandBuffer := mid, highBandBuffer := high\<rparr>)"

text \<open>The second half: per-band compression and the sum of the bands.\<close>

definition MultibandCompressor_compress ::
  "('c \<Rightarrow> AudioBuffer \<Rightarrow> 'c \<times> AudioBuffer) \<Rightarrow> ('f, 'c) MultibandCompressor
     \<Rightarrow> ('f, 'c) MultibandCompressor" where
  "MultibandCompressor_compress compressor s =
     (let (lowComp, low) = compressor (lowBandCompressor s) (lowBandBuffer s);
          (midComp, mid) = compressor (midBandCompressor s) (midBandBuffer s);
          (highComp, high) = compressor (highBandCompressor s) (highBandBuffer s)
      in s\<lparr>lowBandCompressor := lowComp, midBandCompressor := midComp,
            highBandCompressor := highComp,
            lowBandBuffer := low, midBandBuffer := mid, highBandBuffer := high\<rparr>)"

definition MultibandCompressor_sum ::
  "('f, 'c) MultibandCompressor \<Rightarrow> nat \<Rightarrow> nat \<Rightarrow> AudioBuffer \<Rightarrow> AudioBuffer" where
  "MultibandCompressor_sum s numChannels numSamples buffer =
     for_each numChannels
       (\<lambda>ch b. b[ch := for_each numSamples
                          (\<lambda>i outputData.
                             outputData[i := lowBandBuffer s ! ch ! i + midBandBuffer s ! ch ! i
                                             + highBandBuffer s ! ch ! i])
                          (b ! ch)])
       (map (map (\<lambda>x. 0)) buffer)"

definition dsp_MultibandCompressor_process ::
  "('f \<Rightarrow> AudioBuffer \<Rightarrow> 'f \<times> AudioBuffer) \<Rightarrow> ('c \<Rightarrow> AudioBuffer \<Rightarrow> 'c \<times> AudioBuffer)
     \<Rightarrow> ('f, 'c) MultibandCompressor \<Rightarrow> AudioBuffer
     \<Rightarrow> ('f, 'c) MultibandCompressor \<times> AudioBuffer" where
  "dsp_MultibandCompressor_process crossover compressor s buffer =
     (let s1 = dsp_MultibandCompressor_split crossover s buffer;
          s2 = MultibandCompressor_compress compressor s1
      in (s2, MultibandCompressor_sum s2 (length buffer) (getNumSamples buffer) buffer))"

subsection \<open>\<^verbatim>\<open>MAEVN::MultibandCompressor::process\<close>\<close>

text \<open>
  Two channels are hard-wired. The crossover filters run on the first \<open>numSamples\<close> samples
  of the band buffers; the mid buffer, which holds the copy of the input, is updated in place.
\<close>

definition MAEVN_MultibandCompressor_split ::
  "('f \<Rightarrow> AudioBuffer \<Rightarrow> 'f \<times> AudioBuffer) \<Rightarrow> ('f, 'c) MultibandCompressor \<Rightarrow> AudioBuffer
     \<Rightarrow> nat \<Rightarrow> ('f, 'c) MultibandCompressor" where
  "MAEVN_MultibandCompressor_split crossover s buffer numSamples =
     (let low = copyFrom (copyFrom (lowBandBuffer s) 0 buffer 0 numSamples) 1 buffer 1 numSamples;
          mid = copyFrom (copyFrom (midBandBuffer s) 0 buffer 0 numSamples) 1 buffer 1 numSamples;
          high = copyFrom (copyFrom (highBandBuffer s) 0 buffer 0 numSamples) 1 buffer 1 numSamples;
          (lowCrossover1, low) = processBlock crossover (lowCrossover s) low 2 numSamples;
          (highCrossover1, high) = processBlock crossover (highCrossover s) high 2 numSamples;
          mid = for_each 2
                  (\<lambda>channel m. m[channel := for_each numSamples
                                     (\<lambda>i midData.
                                        midData[i := midData ! i - low ! channel ! i
                                                       - high ! channel ! i])
                                     (m ! channel)])
                  mid
      in s\<lparr>lowCrossover := lowCrossover1, highCrossover := highCrossover1,
            lowBandBuffer := low, midBandBuffer := mid, highBandBuffer := high\<rparr>)"

definition MAEVN_MultibandCompressor_process ::
  "('f \<Rightarrow> AudioBuffer \<Rightarrow> 'f \<times> AudioBuffer) \<Rightarrow> ('c \<Rightarrow> AudioBuffer \<Rightarrow> 'c \<times> AudioBuffer)
     \<Rightarrow> ('f, 'c) MultibandCompressor \<Rightarrow> AudioBuffer \<Rightarrow> nat
     \<Rightarrow> ('f, 'c) MultibandCompressor \<times> AudioBuffer" where
  "MAEVN_MultibandCompressor_process crossover compressor s buffer numSamples =
     (let s1 = MAEVN_MultibandCompressor_split crossover s buffer numSamples;
          s2 = MultibandCompressor_compress compressor s1
      in (s2, MultibandCompressor_sum s2 2 numSamples buffer))"

text \<open>
  Crossover filters for the examples: a low-pass that halves every sample and a high-pass
  that keeps a quarter of it (both without state, chosen by the flag that is their state).
\<close>

definition exampleCrossover :: "bool \<Rightarrow> AudioBuffer \<Rightarrow> bool \<times> AudioBuffer" where
  "exampleCrossover isLowpass block =
     (isLowpass, map (map (\<lambda>x. if isLowpass then x / 2 else x / 4)) block)"

definition exampleMultiband :: "(bool, unit) MultibandCompressor" where
  "exampleMultiband =
     \<lparr>lowCrossover = True, highCrossover = False,
      lowBandCompressor = (), midBandCompressor = (), highBandCompressor = (),
      lowBandBuffer = [[0, 0, 0], [0, 0, 0]],
      midBandBuffer = [[0, 0, 0], [0, 0, 0]],
      highBandBuffer = [[0, 0, 0], [0, 0, 0]]\<rparr>"

section \<open>Loudness normalizer (CinematicAudioEnhancer.cpp)\<close>

record LoudnessNormalizer =
  targetLUFS :: real
  currentLUFS :: real
  currentGain :: real
  rmsSum :: real
  rmsSampleCount :: int
  normalizer_currentSampleRate :: real

text \<open>\<^verbatim>\<open>static constexpr int RMS_WINDOW_SIZE = 44100; // 1 second window\<close>\<close>

definition RMS_WINDOW_SIZE :: int where
  "RMS_WINDOW_SIZE = 44100"

definition LoudnessNormalizer_init :: LoudnessNormalizer where
  "LoudnessNormalizer_init =
     \<lparr>targetLUFS = -14, currentLUFS = -24, currentGain = 1, rmsSum = 0, rmsSampleCount = 0,
      normalizer_currentSampleRate = 44100\<rparr>"

definition LoudnessNormalizer_reset :: "LoudnessNormalizer \<Rightarrow> LoudnessNormalizer" where
  "LoudnessNormalizer_reset s =
     s\<lparr>rmsSum := 0, rmsSampleCount := 0, currentGain := 1, currentLUFS := -24\<rparr>"

definition LoudnessNormalizer_setTargetLUFS :: "real \<Rightarrow> LoudnessNormalizer \<Rightarrow> LoudnessNormalizer" where
  "LoudnessNormalizer_setTargetLUFS lufs s = s\<lparr>targetLUFS := jlimit (-24) (-6) lufs\<rparr>"

definition LoudnessNormalizer_updateGain :: "LoudnessNormalizer \<Rightarrow> LoudnessNormalizer" where
  "LoudnessNormalizer_updateGain s =
     (let gainDB = targetLUFS s - currentLUFS s;
          gainDB = jlimit (-12) 12 gainDB;
          targetGain = dBToGain gainDB
      in s\<lparr>currentGain := currentGain s * 0.9 + targetGain * 0.1\<rparr>)"

text \<open>The measurement loop: the sum of the squares of the block's samples.\<close>

definition sumSquares :: "AudioBuffer \<Rightarrow> nat \<Rightarrow> real" where
  "sumSquares buffer numSamples =
     for_each (length buffer)
       (\<lambda>channel acc.
          for_each numSamples (\<lambda>i acc. acc + buffer ! channel ! i * buffer ! channel ! i) acc)
       0"

definition LoudnessNormalizer_process ::
  "LoudnessNormalizer \<Rightarrow> AudioBuffer \<Rightarrow> nat \<Rightarrow> LoudnessNormalizer \<times> AudioBuffer" where
  "LoudnessNormalizer_process s buffer numSamples =
     (let s1 = s\<lparr>rmsSum := rmsSum s + sumSquares buffer numSamples,
                  rmsSampleCount := rmsSampleCount s + int numSamples * int (length buffer)\<rparr>;
          s2 = (if rmsSampleCount s1 \<ge> RMS_WINDOW_SIZE
                then let rms = sqrt (rmsSum s1 / real_of_int (rmsSampleCount s1));
                         s3 = LoudnessNormalizer_updateGain
                                (s1\<lparr>currentLUFS := 20 * log 10 (rms + 0.0000001)\<rparr>)
                     in s3\<lparr>rmsSum := 0, rmsSampleCount := 0\<rparr>
                else s1)
      in (s2, applyGain (currentGain s2) buffer))"

text \<open>What the claim calls the gain delta toward the target, clamped, for a measured level.\<close>

definition clampedGainDB :: "LoudnessNormalizer \<Rightarrow> real \<Rightarrow> real" where
  "clampedGainDB s measuredLUFS = jlimit (-12) 12 (targetLUFS s - measuredLUFS)"

text \<open>The level measured at the end of a window, from the accumulated sum and count.\<close>

definition measuredLUFS :: "real \<Rightarrow> int \<Rightarrow> real" where
  "measuredLUFS squares count = 20 * log 10 (sqrt (squares / real_of_int count) + 0.0000001)"

text \<open>A normalizer for the examples, with gain 2 and a given sample count.\<close>

definition exampleNormalizer :: "int \<Rightarrow> LoudnessNormalizer" where
  "exampleNormalizer count = LoudnessNormalizer_init\<lparr>currentGain := 2, rmsSampleCount := count\<rparr>"

section \<open>De-esser (DSPModules.h)\<close>

text \<open>
  \<open>'f\<close> is the state of the high-pass filter of the sidechain. The member
  \<^verbatim>\<open>compressor\<close> is prepared and configured but not used by \<open>process\<close>; it is left out.
\<close>

record 'f DeEsser =
  deesser_frequency :: real
  threshold :: real
  ratio :: real
  deesser_currentSampleRate :: real
  sibilanceFilter :: 'f
  sideChainBuffer :: AudioBuffer

definition DeEsser_init :: "'f \<Rightarrow> 'f DeEsser" where
  "DeEsser_init filterState =
     \<lparr>deesser_frequency = 6000, threshold = -20, ratio = 4, deesser_currentSampleRate = 44100,
      sibilanceFilter = filterState, sideChainBuffer = []\<rparr>"

definition DeEsser_setThreshold :: "real \<Rightarrow> 'f DeEsser \<Rightarrow> 'f DeEsser" where
  "DeEsser_setThreshold dB s = s\<lparr>threshold := jlimit (-60) 0 dB\<rparr>"

definition DeEsser_setRatio :: "real \<Rightarrow> 'f DeEsser \<Rightarrow> 'f DeEsser" where
  "DeEsser_setRatio r s = s\<lparr>ratio := jlimit 1 20 r\<rparr>"

text \<open>
  \<^verbatim>\<open>sideChainBuffer.setSize (numChannels, maximumBlockSize)\<close> in \<open>prepare\<close>; the contents
  after a resize are not specified by JUCE and are taken as zero.
\<close>

definition DeEsser_prepare :: "nat \<Rightarrow> nat \<Rightarrow> real \<Rightarrow> 'f DeEsser \<Rightarrow> 'f DeEsser" where
  "DeEsser_prepare numChannels maximumBlockSize sampleRate s =
     s\<lparr>deesser_currentSampleRate := sampleRate,
       sideChainBuffer := replicate numChannels (replicate maximumBlockSize 0)\<rparr>"

text \<open>The sibilance level of sample \<open>i\<close>: the inner loop over the channels and the division.\<close>

definition sibilanceLevel :: "AudioBuffer \<Rightarrow> nat \<Rightarrow> nat \<Rightarrow> real" where
  "sibilanceLevel sideChain numChannels i =
     for_each numChannels (\<lambda>ch level. level + \<bar>sideChain ! ch ! i\<bar>) 0 / real numChannels"

text \<open>The gain of one sample, from its sibilance level.\<close>

definition gainReduction :: "real \<Rightarrow> real \<Rightarrow> real \<Rightarrow> real" where
  "gainReduction thresholdDB r level =
     (let thresholdLinear = dBToGain thresholdDB
      in if level > thresholdLinear
         then let overThreshold = level / thresholdLinear;
                  targetGain = 1 / (overThreshold powr (1 - 1 / r))
              in targetGain
         else 1)"

definition DeEsser_process ::
  "('f \<Rightarrow> AudioBuffer \<Rightarrow> 'f \<times> AudioBuffer) \<Rightarrow> 'f DeEsser \<Rightarrow> AudioBuffer
     \<Rightarrow> 'f DeEsser \<times> AudioBuffer" where
  "DeEsser_process highpass s buffer =
     (let numSamples = getNumSamples buffer;
          numChannels = length buffer;
          sideChain = for_each numChannels (\<lambda>ch b. copyFrom b ch buffer ch numSamples)
                        (sideChainBuffer s);
          (filter1, sideChain) = highpass (sibilanceFilter s) sideChain;
          buffer1 =
            for_each numSamples
              (\<lambda>i b.
                 let g = gainReduction (threshold s) (ratio s)
                           (sibilanceLevel sideChain numChannels i)
                 in for_each numChannels (\<lambda>ch b. b[ch := (b ! ch)[i := b ! ch ! i * g]]) b)
              buffer
      in (s\<lparr>sibilanceFilter := filter1, sideChainBuffer := sideChain\<rparr>, buffer1))"

text \<open>
  The mean absolute value across the channels of sample \<open>i\<close> of the filtered sidechain, as
  the specification words it.
\<close>

definition meanAbs :: "AudioBuffer \<Rightarrow> nat \<Rightarrow> nat \<Rightarrow> real" where
  "meanAbs sideChain numChannels i =
     (\<Sum>ch = 0..<numChannels. \<bar>sideChain ! ch ! i\<bar>) / real numChannels"

text \<open>A sidechain filter for the examples: it scales every sample by its state.\<close>

definition exampleHighpass :: "real \<Rightarrow> AudioBuffer \<Rightarrow> real \<times> AudioBuffer" where
  "exampleHighpass k block = (k, map (map (\<lambda>x. k * x)) block)"

definition exampleDeEsser :: "real DeEsser" where
  "exampleDeEsser =
     DeEsser_prepare 2 2 44100 (DeEsser_setThreshold 0 (DeEsser_setRatio 2 (DeEsser_init 1)))"

section \<open>Reverb pre-delay (DSPModules.h, CinematicAudioEnhancer.cpp)\<close>

subsection \<open>The delay line of the JUCE library\<close>

text \<open>
  \<^verbatim>\<open>juce::dsp::DelayLine<float, DelayLineInterpolationTypes::Linear>\<close> is a class of the JUCE
  library, not of the repository. It is modelled after the library: a circular buffer of
  \<open>totalSize\<close> samples per channel; \<^verbatim>\<open>pushSample\<close> stores at the write position and moves it
  one step down (modulo \<open>totalSize\<close>); \<^verbatim>\<open>popSample\<close> reads at the read position plus the
  integer delay, interpolating linearly with the next sample by the fractional delay, and
  moves the read position one step down; \<^verbatim>\<open>reset\<close> zeroes the positions and the buffer;
  \<^verbatim>\<open>setMaximumDelayInSamples (n)\<close> makes \<open>totalSize\<close> the larger of 4 and \<open>n + 2\<close> and resets;
  \<^verbatim>\<open>setDelay\<close> clamps the delay to between 0 and \<open>totalSize - 2\<close> and splits it in its integer
  and fractional parts.
\<close>

record DelayLine =
  bufferData :: AudioBuffer
  writePos :: "nat list"
  readPos :: "nat list"
  totalSize :: nat
  delay :: real
  delayInt :: nat
  delayFrac :: real

definition DelayLine_reset :: "DelayLine \<Rightarrow> DelayLine" where
  "DelayLine_reset d =
     d\<lparr>writePos := map (\<lambda>p. 0) (writePos d),
       readPos := map (\<lambda>p. 0) (readPos d),
       bufferData := map (map (\<lambda>x. 0)) (bufferData d)\<rparr>"

definition DelayLine_setMaximumDelayInSamples :: "nat \<Rightarrow> DelayLine \<Rightarrow> DelayLine" where
  "DelayLine_setMaximumDelayInSamples maxDelayInSamples d =
     (let newSize = max 4 (maxDelayInSamples + 2)
      in DelayLine_reset
           (d\<lparr>totalSize := newSize,
              bufferData := replicate (length (bufferData d)) (replicate newSize 0)\<rparr>))"

text \<open>The constructor \<^verbatim>\<open>DelayLine (maximumDelayInSamples)\<close>: no channels yet.\<close>

definition DelayLine_init :: "nat \<Rightarrow> DelayLine" where
  "DelayLine_init maximumDelayInSamples =
     DelayLine_setMaximumDelayInSamples maximumDelayInSamples
       \<lparr>bufferData = [], writePos = [], readPos = [], totalSize = 4,
        delay = 0, delayInt = 0, delayFrac = 0\<rparr>"

definition DelayLine_prepare :: "nat \<Rightarrow> DelayLine \<Rightarrow> DelayLine" where
  "DelayLine_prepare numChannels d =
     DelayLine_reset
       (d\<lparr>bufferData := replicate numChannels (replicate (totalSize d) 0),
          writePos := replicate numChannels 0,
          readPos := replicate numChannels 0\<rparr>)"

definition DelayLine_setDelay :: "real \<Rightarrow> DelayLine \<Rightarrow> DelayLine" where
  "DelayLine_setDelay newDelayInSamples d =
     (let upperLimit = real (totalSize d - 2);
          v = jlimit 0 upperLimit newDelayInSamples
      in d\<lparr>delay := v, delayInt := nat \<lfloor>v\<rfloor>, delayFrac := v - of_int \<lfloor>v\<rfloor>\<rparr>)"

definition DelayLine_pushSample :: "nat \<Rightarrow> sample \<Rightarrow> DelayLine \<Rightarrow> DelayLine" where
  "DelayLine_pushSample channel x d =
     d\<lparr>bufferData := (bufferData d)[channel := (bufferData d ! channel)[writePos d ! channel := x]],
       writePos := (writePos d)[channel := (writePos d ! channel + totalSize d - 1) mod totalSize d]\<rparr>"

definition DelayLine_interpolateSample :: "nat \<Rightarrow> DelayLine \<Rightarrow> sample" where
  "DelayLine_interpolateSample channel d =
     (let index1 = readPos d ! channel + delayInt d;
          index2 = index1 + 1;
          (index1, index2) =
            (if index2 \<ge> totalSize d then (index1 mod totalSize d, index2 mod totalSize d)
             else (index1, index2));
          value1 = bufferData d ! channel ! index1;
          value2 = bufferData d ! channel ! index2
      in value1 + delayFrac d * (value2 - value1))"

definition DelayLine_popSample :: "nat \<Rightarrow> DelayLine \<Rightarrow> sample \<times> DelayLine" where
  "DelayLine_popSample channel d =
     (DelayLine_interpolateSample channel d,
      d\<lparr>readPos := (readPos d)[channel := (readPos d ! channel + totalSize d - 1) mod totalSize d]\<rparr>)"

subsection \<open>The pre-delay loop of the two reverbs\<close>

text \<open>
  \<^verbatim>\<open>EpicSpaceReverb::process\<close> (on its wet buffer) and \<^verbatim>\<open>CinematicReverb::process\<close> (on the
  block itself) have the same loop:
  \<^verbatim>\<open>float delayed = preDelayLine.popSample (ch); preDelayLine.pushSample (ch, data[i]); data[i] = delayed;\<close>
\<close>

definition preDelaySample :: "nat \<Rightarrow> nat \<Rightarrow> DelayLine \<times> AudioBuffer \<Rightarrow> DelayLine \<times> AudioBuffer" where
  "preDelaySample ch i state =
     (let (preDelayLine, b) = state;
          (delayed, preDelayLine) = DelayLine_popSample ch preDelayLine;
          preDelayLine = DelayLine_pushSample ch (b ! ch ! i) preDelayLine
      in (preDelayLine, b[ch := (b ! ch)[i := delayed]]))"

definition applyPreDelay ::
  "DelayLine \<Rightarrow> AudioBuffer \<Rightarrow> nat \<Rightarrow> nat \<Rightarrow> DelayLine \<times> AudioBuffer" where
  "applyPreDelay preDelayLine buffer numChannels numSamples =
     for_each numChannels
       (\<lambda>ch state. for_each numSamples (\<lambda>i state. preDelaySample ch i state) state)
       (preDelayLine, buffer)"

subsection \<open>\<^verbatim>\<open>MAEVN::CinematicReverb\<close>\<close>

text \<open>\<open>'r\<close> is the state of the \<^verbatim>\<open>juce::dsp::Reverb\<close>.\<close>

record 'r CinematicReverb =
  preDelayMs :: real
  reverb :: 'r
  cinematic_preDelayLine :: DelayLine
  cinematic_currentSampleRate :: real

text \<open>The member initialiser \<^verbatim>\<open>preDelayLine{192000}\<close> and the constructor.\<close>

definition CinematicReverb_init :: "'r \<Rightarrow> 'r CinematicReverb" where
  "CinematicReverb_init reverbState =
     \<lparr>preDelayMs = 30, reverb = reverbState, cinematic_preDelayLine = DelayLine_init 192000,
      cinematic_currentSampleRate = 44100\<rparr>"

definition CinematicReverb_prepare :: "real \<Rightarrow> nat \<Rightarrow> 'r CinematicReverb \<Rightarrow> 'r CinematicReverb" where
  "CinematicReverb_prepare sampleRate maxBlockSize s =
     s\<lparr>cinematic_currentSampleRate := sampleRate,
       cinematic_preDelayLine :=
         DelayLine_setDelay (preDelayMs s * sampleRate / 1000)
           (DelayLine_prepare 2 (cinematic_preDelayLine s))\<rparr>"

definition CinematicReverb_setPreDelay :: "real \<Rightarrow> 'r CinematicReverb \<Rightarrow> 'r CinematicReverb" where
  "CinematicReverb_setPreDelay ms s =
     (let s1 = s\<lparr>preDelayMs := jlimit 0 200 ms\<rparr>
      in s1\<lparr>cinematic_preDelayLine :=
              DelayLine_setDelay (preDelayMs s1 * cinematic_currentSampleRate s1 / 1000)
                (cinematic_preDelayLine s1)\<rparr>)"

definition CinematicReverb_process ::
  "('r \<Rightarrow> AudioBuffer \<Rightarrow> 'r \<times> AudioBuffer) \<Rightarrow> 'r CinematicReverb \<Rightarrow> AudioBuffer \<Rightarrow> nat
     \<Rightarrow> 'r CinematicReverb \<times> AudioBuffer" where
  "CinematicReverb_process reverbProcess s buffer numSamples =
     (let (line, b) = applyPreDelay (cinematic_preDelayLine s) buffer (length buffer) numSamples;
          (reverb1, b) = processBlock reverbProcess (reverb s) b (length buffer) numSamples
      in (s\<lparr>cinematic_preDelayLine := line, reverb := reverb1\<rparr>, b))"

subsection \<open>\<^verbatim>\<open>dspmodules::EpicSpaceReverb\<close>: the pre-delay stage\<close>

text \<open>
  The first two steps of \<^verbatim>\<open>EpicSpaceReverb::process\<close>: the copy of the block to the wet buffer
  (channel 0, and channel 1 if there is one) and the pre-delay on the wet buffer. The early
  reflections, the late reverb, the damping filter and the mix, which follow, work on the
  result.
\<close>

record EpicSpaceReverb =
  preDelay :: real
  epic_preDelayLine :: DelayLine
  wetBuffer :: AudioBuffer
  epic_currentSampleRate :: real

definition MAX_PRE_DELAY_SAMPLES :: nat where
  "MAX_PRE_DELAY_SAMPLES = 192000"

definition EpicSpaceReverb_init :: EpicSpaceReverb where
  "EpicSpaceReverb_init =
     \<lparr>preDelay = 30, epic_preDelayLine = DelayLine_init MAX_PRE_DELAY_SAMPLES, wetBuffer = [],
      epic_currentSampleRate = 44100\<rparr>"

definition EpicSpaceReverb_updatePreDelay :: "EpicSpaceReverb \<Rightarrow> EpicSpaceReverb" where
  "EpicSpaceReverb_updatePreDelay s =
     s\<lparr>epic_preDelayLine :=
         DelayLine_setDelay (preDelay s * epic_currentSampleRate s / 1000) (epic_preDelayLine s)\<rparr>"

text \<open>
  The part of \<open>prepare\<close> that concerns the pre-delay and the wet buffer (whose contents
  after \<^verbatim>\<open>setSize\<close> are taken as zero).
\<close>

definition EpicSpaceReverb_prepare :: "real \<Rightarrow> nat \<Rightarrow> nat \<Rightarrow> EpicSpaceReverb \<Rightarrow> EpicSpaceReverb" where
  "EpicSpaceReverb_prepare sampleRate maximumBlockSize numChannels s =
     (let s1 = s\<lparr>epic_currentSampleRate := sampleRate\<rparr>;
          line = DelayLine_setMaximumDelayInSamples (nat \<lfloor>sampleRate * 0.2\<rfloor>)
                   (DelayLine_prepare numChannels (epic_preDelayLine s1));
          s2 = EpicSpaceReverb_updatePreDelay (s1\<lparr>epic_preDelayLine := line\<rparr>)
      in s2\<lparr>wetBuffer := replicate numChannels (replicate maximumBlockSize 0)\<rparr>)"

definition EpicSpaceReverb_setPreDelay :: "real \<Rightarrow> EpicSpaceReverb \<Rightarrow> EpicSpaceReverb" where
  "EpicSpaceReverb_setPreDelay ms s =
     EpicSpaceReverb_updatePreDelay (s\<lparr>preDelay := jlimit 0 200 ms\<rparr>)"

definition EpicSpaceReverb_preDelayStage ::
  "EpicSpaceReverb \<Rightarrow> AudioBuffer \<Rightarrow> EpicSpaceReverb" where
  "EpicSpaceReverb_preDelayStage s buffer =
     (let numSamples = getNumSamples buffer;
          numChannels = length buffer;
          wet = copyFrom (wetBuffer s) 0 buffer 0 numSamples;
          wet = (if numChannels > 1 then copyFrom wet 1 buffer 1 numSamples else wet);
          (line, wet) = applyPreDelay (epic_preDelayLine s) wet numChannels numSamples
      in s\<lparr>epic_preDelayLine := line, wetBuffer := wet\<rparr>)"

text \<open>
  One channel of the loop on its own: the circular buffer of the channel, its write and read
  positions and the channel's samples. \<open>channelStep\<close> is \<open>preDelaySample\<close> seen from the
  channel it works on.
\<close>

definition channelStep ::
  "nat \<Rightarrow> nat \<Rightarrow> real \<Rightarrow> nat \<Rightarrow> sample list \<times> nat \<times> nat \<times> sample list
     \<Rightarrow> sample list \<times> nat \<times> nat \<times> sample list" where
  "channelStep ringSize n fraction i state =
     (let (ring, w, r, samples) = state;
          index1 = r + n;
          index2 = index1 + 1;
          (index1, index2) =
            (if index2 \<ge> ringSize then (index1 mod ringSize, index2 mod ringSize) else (index1, index2));
          value1 = ring ! index1;
          value2 = ring ! index2;
          delayed = value1 + fraction * (value2 - value1)
      in (ring[w := samples ! i], (w + ringSize - 1) mod ringSize, (r + ringSize - 1) mod ringSize,
          samples[i := delayed]))"

text \<open>
  A unit impulse followed by \<open>n\<close> zeros, and a line as the reverbs have it after
  \<open>prepare\<close>: constructed, prepared for \<open>numChannels\<close> channels, its delay set to \<open>n\<close> samples.
\<close>

definition impulse :: "nat \<Rightarrow> sample list" where
  "impulse n = 1 # replicate n 0"

definition freshDelayLine :: "nat \<Rightarrow> nat \<Rightarrow> nat \<Rightarrow> DelayLine" where
  "freshDelayLine numChannels maxDelay n =
     DelayLine_setDelay (real n) (DelayLine_prepare numChannels (DelayLine_init maxDelay))"

subsection \<open>Invariants of the pre-delay loop\<close>

text \<open>The state of the loop on channel \<open>ch\<close>, put back into the line and the buffer.\<close>

definition liftChannel :: "nat \<Rightarrow> DelayLine \<Rightarrow> AudioBuffer \<Rightarrow> sample list \<times> nat \<times> nat \<times> sample list \<Rightarrow> DelayLine \<times> AudioBuffer" where
  "liftChannel ch d b state =
     (let (ring, w, r, samples) = state
      in (d\<lparr>bufferData := (bufferData d)[ch := ring], writePos := (writePos d)[ch := w],
            readPos := (readPos d)[ch := r]\<rparr>, b[ch := samples]))"

text \<open>
  The delay, in samples, that the loop gives on a circular buffer of \<open>ringSize\<close> samples
  when the delay of the line is the whole number \<open>n\<close>: with \<open>n = 0\<close> the sample is read at
  the position that is written only afterwards, so what is read is the sample stored there one
  whole turn of the buffer earlier.
\<close>

definition loopDelay :: "nat \<Rightarrow> nat \<Rightarrow> nat" where
  "loopDelay ringSize n = (if n = 0 then ringSize else n)"

text \<open>
  After \<open>m\<close> samples of a channel \<open>xs\<close>, on a line that was fresh, \<open>D\<close> being the delay the
  loop gives: the read and write positions agree; counted from the position after the write
  position, the circular buffer holds the samples pushed so far, the latest first, and zeros
  behind them; the first \<open>m\<close> samples of the channel are the delayed ones.
\<close>

definition channelInv ::
  "nat \<Rightarrow> nat \<Rightarrow> sample list \<Rightarrow> nat \<Rightarrow> sample list \<times> nat \<times> nat \<times> sample list \<Rightarrow> bool" where
  "channelInv S D xs m state =
     (let (ring, w, r, out) = state
      in r = w \<and> w < S \<and> length ring = S \<and>
         (\<forall>j<S. ring ! ((w + 1 + j) mod S) = (if j < m then xs ! (m - 1 - j) else 0)) \<and>
         length out = length xs \<and>
         (\<forall>k<length xs. out ! k = (if k < m then (if k < D then 0 else xs ! (k - D)) else xs ! k)))"

text \<open>A channel whose first \<open>n\<close> samples are delayed by \<open>D\<close> samples, zeros entering.\<close>

definition delayedBy :: "nat \<Rightarrow> nat \<Rightarrow> sample list \<Rightarrow> sample list" where
  "delayedBy D n xs = take n (replicate D 0 @ xs) @ drop n xs"

text \<open>
  After the channels below \<open>c\<close>: their samples are delayed, the other channels of the
  buffer and of the line are as they were.
\<close>

definition channelsInv ::
  "nat \<Rightarrow> nat \<Rightarrow> nat \<Rightarrow> nat \<Rightarrow> AudioBuffer \<Rightarrow> nat \<Rightarrow> DelayLine \<times> AudioBuffer \<Rightarrow> bool" where
  "channelsInv S N C n b0 c state =
     (let (d, b) = state
      in totalSize d = S \<and> delayInt d = N \<and> delayFrac d = 0 \<and>
         length (bufferData d) = C \<and> length (writePos d) = C \<and> length (readPos d) = C \<and>
         (\<forall>ch<C. c \<le> ch \<longrightarrow>
            bufferData d ! ch = replicate S 0 \<and> writePos d ! ch = 0 \<and> readPos d ! ch = 0) \<and>
         length b = length b0 \<and>
         (\<forall>ch<length b0. b ! ch = (if ch < c then delayedBy (loopDelay S N) n (b0 ! ch) else b0 ! ch)))"
section \<open>Properties\<close>

subsection \<open>Loops\<close>

lemma for_each_0: "for_each 0 body s = s"
  by (simp add: for_each_def)

lemma for_each_Suc: "for_each (Suc n) body s = body n (for_each n body s)"
  by (simp add: for_each_def)

lemma length_for_each_update:
  "length (for_each n (\<lambda>i c. c[i := g i c]) c) = length c"
  by (induction n) (simp_all add: for_each_0 for_each_Suc)

lemma nth_for_each_update:
  "for_each n (\<lambda>i c. c[i := g i (c ! i)]) c ! j =
     (if j < n \<and> j < length c then g j (c ! j) else c ! j)"
proof (induction n arbitrary: j)
  case 0
  show ?case by (simp add: for_each_0)
next
  case (Suc n)
  have len: "length (for_each n (\<lambda>i c. c[i := g i (c ! i)]) c) = length c"
    by (rule length_for_each_update [of n "\<lambda>i c. g i (c ! i)" c])
  show ?case
    using Suc [of j] Suc [of n] len
    by (cases "j = n") (simp_all add: for_each_Suc less_Suc_eq list_update_beyond)
qed

lemma nth_for_each_set:
  "for_each n (\<lambda>i c. c[i := g i]) c ! j = (if j < n \<and> j < length c then g j else c ! j)"
  using nth_for_each_update [of n "\<lambda>i x. g i" c j] by simp

lemma length_for_each_set:
  "length (for_each n (\<lambda>i c. c[i := g i]) c) = length c"
  using length_for_each_update [of n "\<lambda>i c. g i" c] by simp

lemma copyFrom_loop_nth:
  "for_each C (\<lambda>ch b. copyFrom b ch source ch n) dest ! k =
     (if k < C \<and> k < length dest
      then for_each n (\<lambda>i c. c[i := source ! k ! i]) (dest ! k) else dest ! k)"
  unfolding copyFrom_def
  using nth_for_each_update
          [of C "\<lambda>ch c. for_each n (\<lambda>i c. c[i := source ! ch ! i]) c" dest k]
  by simp

lemma copyFrom_loop_length:
  "length (for_each C (\<lambda>ch b. copyFrom b ch source ch n) dest) = length dest"
  unfolding copyFrom_def
  by (rule length_for_each_update)

lemma copy_three:
  "for_each C
     (\<lambda>ch (low, mid, high).
        (copyFrom low ch buffer ch n, copyFrom mid ch buffer ch n, copyFrom high ch buffer ch n))
     (l, m, h) =
   (for_each C (\<lambda>ch b. copyFrom b ch buffer ch n) l,
    for_each C (\<lambda>ch b. copyFrom b ch buffer ch n) m,
    for_each C (\<lambda>ch b. copyFrom b ch buffer ch n) h)"
  by (induction C) (simp_all add: for_each_0 for_each_Suc)

lemma hasSize_nth: "hasSize b C M \<Longrightarrow> k < C \<Longrightarrow> length (b ! k) = M"
  by (simp add: hasSize_def list_all_length)

lemma hasSize_length: "hasSize b C M \<Longrightarrow> length b = C"
  by (simp add: hasSize_def)

lemma copyFrom_nth:
  "copyFrom dest k source k n ! ch ! i =
     (if ch = k \<and> k < length dest \<and> i < n \<and> i < length (dest ! k)
      then source ! k ! i else dest ! ch ! i)"
proof (cases "k < length dest")
  case True
  then show ?thesis
    by (cases "ch = k") (simp_all add: copyFrom_def nth_for_each_set)
next
  case False
  then show ?thesis
    by (simp add: copyFrom_def list_update_beyond)
qed

lemma copyFrom_length: "length (copyFrom dest k source k n) = length dest"
  by (simp add: copyFrom_def)

lemma copyFrom_length_nth:
  "length (copyFrom dest k source k n ! ch) = length (dest ! ch)"
  by (cases "k < length dest")
     (simp_all add: copyFrom_def nth_list_update length_for_each_set list_update_beyond)

subsection \<open>Stereo imager\<close>



lemma StereoWidener_sample_exact: "StereoWidener_sample (\<lambda>x. x) 1 1 l r = (l, r)"
  by (simp add: StereoWidener_sample_def Let_def field_simps)

lemma StereoWidener_loop_exact: "StereoWidener_loop (\<lambda>x. x) 1 1 n (L, R) = (L, R)"
  unfolding StereoWidener_loop_def
  by (induction n) (simp_all add: for_each_Suc for_each_0 StereoWidener_sample_exact)

text \<open>
  The widener of DSPModules.h has the same round trip when its output gain is 1, the value
  the constructor gives it.
\<close>

lemma StereoWidener_unity_width_exact:
  "outputGain s = 1 \<Longrightarrow>
   StereoWidener_process (\<lambda>x. x) (StereoWidener_setWidth 1 s) buffer = buffer"
  by (simp add: StereoWidener_process_def StereoWidener_setWidth_def jlimit_def
      StereoWidener_loop_exact list_update_same_conv)




subsection \<open>Rounding error of the binary32 arithmetic\<close>






lemma StereoWidener_sample_representable:
  assumes "rnd (l + r) = l + r" and "rnd (l - r) = l - r"
    and "rnd ((l + r) * 0.5) = (l + r) * 0.5" and "rnd ((l - r) * 0.5) = (l - r) * 0.5"
    and "rnd l = l" and "rnd r = r"
  shows "StereoWidener_sample rnd 1 1 l r = (l, r)"
proof -
  have "(l + r) * 0.5 + (l - r) * 0.5 = l" "(l + r) * 0.5 - (l - r) * 0.5 = r"
    by (simp_all add: field_simps)
  then show ?thesis
    unfolding StereoWidener_sample_def Let_def
    by (simp only: assms mult_1_right)
qed












text \<open>
  Claim C9: the mono frequency has no effect on the processed audio. For every block, every
  imager state and every two values passed to setMonoFrequency, process gives the same
  output: it reads neither the mono frequency nor the low-pass filter. This holds whatever
  the rounding of the arithmetic and whatever coefficients makeLowPass computes.
\<close>

theorem StereoImager_mono_frequency_unused:
  "StereoImager_process rnd (StereoImager_setMonoFrequency makeLowPass f1 s) buffer numSamples =
   StereoImager_process rnd (StereoImager_setMonoFrequency makeLowPass f2 s) buffer numSamples"
  by (simp add: StereoImager_process_def StereoImager_setMonoFrequency_def Let_def)

theorem StereoImager_mono_frequency_unused_witness:
  "StereoImager_process (\<lambda>x. x)
     (StereoImager_setMonoFrequency (\<lambda>sampleRate f. f / sampleRate) 60 (StereoImager_init 0))
     [[1, 2], [3, 5]] 2 =
   StereoImager_process (\<lambda>x. x)
     (StereoImager_setMonoFrequency (\<lambda>sampleRate f. f / sampleRate) 400 (StereoImager_init 0))
     [[1, 2], [3, 5]] 2 \<and>
   lowPassFilter (StereoImager_setMonoFrequency (\<lambda>sampleRate f. f / sampleRate) 60
                    (StereoImager_init 0)) \<noteq>
   lowPassFilter (StereoImager_setMonoFrequency (\<lambda>sampleRate f. f / sampleRate) 400
                    (StereoImager_init 0))"
  using StereoImager_mono_frequency_unused
          [of "\<lambda>x. x" "\<lambda>sampleRate f. f / sampleRate" 60 "StereoImager_init 0"
              "[[1, 2], [3, 5]]" 2 400]
  by (simp add: StereoImager_setMonoFrequency_def StereoImager_init_def jlimit_def Let_def)

subsection \<open>Per-track chain manager\<close>

lemma processEffects_buffer:
  "snd (processEffects effects buffer n) = appliedInOrder effects n buffer"
  by (induction effects arbitrary: buffer)
     (simp_all add: appliedInOrder_def case_prod_beta)

lemma appliedInOrder_append:
  "appliedInOrder (xs @ ys) n buffer = appliedInOrder ys n (appliedInOrder xs n buffer)"
  by (simp add: appliedInOrder_def)

lemma processDSP_buffer:
  "snd (AIFXEngine_processDSP e buffer n t) =
     appliedInOrder (dspEffects (trackFX e ! t)) n buffer"
  using processEffects_buffer [of "dspEffects (trackFX e ! t)" buffer n]
  by (simp add: AIFXEngine_processDSP_def Let_def case_prod_beta)

lemma processAI_buffer:
  "snd (AIFXEngine_processAI e buffer n t) =
     appliedInOrder (aiEffects (trackFX e ! t)) n buffer"
  using processEffects_buffer [of "aiEffects (trackFX e ! t)" buffer n]
  by (simp add: AIFXEngine_processAI_def Let_def case_prod_beta)

lemma processDSP_keeps_ai:
  "t < length (trackFX e) \<Longrightarrow>
   aiEffects (trackFX (fst (AIFXEngine_processDSP e buffer n t)) ! t) = aiEffects (trackFX e ! t)"
  by (simp add: AIFXEngine_processDSP_def Let_def case_prod_beta)

lemma processAI_keeps_dsp:
  "t < length (trackFX e) \<Longrightarrow>
   dspEffects (trackFX (fst (AIFXEngine_processAI e buffer n t)) ! t) = dspEffects (trackFX e ! t)"
  by (simp add: AIFXEngine_processAI_def Let_def case_prod_beta)

lemma processHybrid_buffer:
  "t < length (trackFX e) \<Longrightarrow>
   snd (AIFXEngine_processHybrid e buffer n t) =
     appliedInOrder (aiEffects (trackFX e ! t)) n
       (appliedInOrder (dspEffects (trackFX e ! t)) n buffer)"
  using processDSP_keeps_ai [of t e buffer n] processDSP_buffer [of e buffer n t]
  by (simp add: AIFXEngine_processHybrid_def processAI_buffer case_prod_beta)

text \<open>
  Claim C1: for a valid track index, \<^verbatim>\<open>AIFXEngine::process\<close> in mode Off leaves the buffer (and
  the engine) unmodified; in mode DSP the result is the track's DSP effects applied in list
  order, the AI effects being left alone; in mode AI the result is the AI effects applied in
  list order, the DSP effects being left alone; in mode Hybrid the result is the whole DSP list
  followed by the whole AI list, on the same buffer. List order is insertion order:
  addDSPEffect and addAIEffect append the prepared effect at the end of their list.
\<close>

theorem AIFXEngine_process_dispatch:
  assumes "0 \<le> trackIndex" and "trackIndex < NUM_TRACKS"
    and "length (trackFX e) = nat NUM_TRACKS"
  shows
    "(mode (trackFX e ! nat trackIndex) = Off \<longrightarrow>
        AIFXEngine_process e buffer n trackIndex = (e, buffer)) \<and>
     (mode (trackFX e ! nat trackIndex) = DSP \<longrightarrow>
        snd (AIFXEngine_process e buffer n trackIndex) =
          appliedInOrder (dspEffects (trackFX e ! nat trackIndex)) n buffer \<and>
        aiEffects (trackFX (fst (AIFXEngine_process e buffer n trackIndex)) ! nat trackIndex) =
          aiEffects (trackFX e ! nat trackIndex)) \<and>
     (mode (trackFX e ! nat trackIndex) = AI \<longrightarrow>
        snd (AIFXEngine_process e buffer n trackIndex) =
          appliedInOrder (aiEffects (trackFX e ! nat trackIndex)) n buffer \<and>
        dspEffects (trackFX (fst (AIFXEngine_process e buffer n trackIndex)) ! nat trackIndex) =
          dspEffects (trackFX e ! nat trackIndex)) \<and>
     (mode (trackFX e ! nat trackIndex) = Hybrid \<longrightarrow>
        snd (AIFXEngine_process e buffer n trackIndex) =
          appliedInOrder (dspEffects (trackFX e ! nat trackIndex) @
                          aiEffects (trackFX e ! nat trackIndex)) n buffer) \<and>
     dspEffects (trackFX (AIFXEngine_addDSPEffect trackIndex effect e) ! nat trackIndex) =
       dspEffects (trackFX e ! nat trackIndex) @
         [prepare effect (engine_currentSampleRate e) (engine_currentMaxBlockSize e)] \<and>
     (hasOnnxEngine e \<longrightarrow>
        aiEffects (trackFX (AIFXEngine_addAIEffect newAIEffect trackIndex role e)
                     ! nat trackIndex) =
          aiEffects (trackFX e ! nat trackIndex) @
            [prepare (newAIEffect role) (engine_currentSampleRate e)
               (engine_currentMaxBlockSize e)])"
proof -
  have t: "nat trackIndex < length (trackFX e)"
    using assms by simp
  have inr: "\<not> (trackIndex < 0 \<or> trackIndex \<ge> NUM_TRACKS)"
    using assms by simp
  show ?thesis
    using t inr assms(1,2)
    by (simp add: AIFXEngine_process_def processDSP_buffer processAI_buffer
        processHybrid_buffer processDSP_keeps_ai processAI_keeps_dsp appliedInOrder_append
        AIFXEngine_addDSPEffect_def AIFXEngine_addAIEffect_def Let_def)
qed

lemma exampleEngine_track:
  "trackFX exampleEngine ! 0 =
     \<lparr>mode = Hybrid, dspEffects = [gainEffect 2], aiEffects = [offsetEffect 1]\<rparr>"
  "length (trackFX exampleEngine) = 6"
  by (simp_all add: exampleEngine_def AIFXEngine_init_def NUM_TRACKS_def AIFXEngine_setFXMode_def
      AIFXEngine_addAIEffect_def AIFXEngine_addDSPEffect_def Let_def eval_nat_numeral)

text \<open>
  A gain of 2 inserted as DSP effect and an offset of 1 inserted as AI effect, in mode Hybrid:
  the block is doubled first and shifted afterwards.
\<close>

theorem AIFXEngine_process_dispatch_witness:
  "(0::int) \<le> 0 \<and> 0 < NUM_TRACKS \<and> length (trackFX exampleEngine) = nat NUM_TRACKS \<and>
   mode (trackFX exampleEngine ! nat 0) = Hybrid \<and>
   snd (AIFXEngine_process exampleEngine [[1, 2], [3, 4]] 2 0) = [[3, 5], [7, 9]]"
  using AIFXEngine_process_dispatch [of 0 exampleEngine "[[1, 2], [3, 4]]" 2]
  by (simp add: exampleEngine_track NUM_TRACKS_def appliedInOrder_def)

subsection \<open>AI effect bridge\<close>

lemma OnnxModel_runInference_returns:
  "\<exists>ok out. OnnxModel_runInference m input shape outputData = Inr (ok, out)"
  by (auto simp add: OnnxModel_runInference_def try_catch_def Let_def split: sum.splits)

lemma OnnxEngine_runInference_returns:
  "\<exists>ok out. OnnxEngine_runInference e role input shape outputData = Inr (ok, out)"
  using OnnxModel_runInference_returns
  by (auto simp add: OnnxEngine_runInference_def split: option.splits)

text \<open>
  Claim C3: \<^verbatim>\<open>AIEffect::process\<close> always returns (no exception leaves it: the only throwing
  call, the session's inference, is inside the try block of \<^verbatim>\<open>OnnxModel::runInference\<close>);
  when the backend pointer is null or the backend reports the role not ready, the effect and
  the block are returned as they were; when the inference call fails (returns false, which
  covers a caught exception), the block is returned as it was.
\<close>

theorem AIEffect_process_pass_through:
  "(\<exists>fx1 buffer1. AIEffect_process fx buffer numSamples = Inr (fx1, buffer1)) \<and>
   (onnxEngine fx = None \<or> \<not> OnnxEngine_isModelReady (the (onnxEngine fx)) (modelRole fx)
      \<longrightarrow> AIEffect_process fx buffer numSamples = Inr (fx, buffer)) \<and>
   (inferenceFails fx buffer numSamples
      \<longrightarrow> (\<exists>fx1. AIEffect_process fx buffer numSamples = Inr (fx1, buffer)))"
proof -
  obtain ok out where r:
    "OnnxEngine_runInference (the (onnxEngine fx)) (modelRole fx)
       (flattenBuffer buffer numSamples) [1, int (length buffer), int numSamples]
       (outputBuffer fx) = Inr (ok, out)"
    using OnnxEngine_runInference_returns by blast
  show ?thesis
    using r by (simp add: AIEffect_process_def inferenceFails_def Let_def)
qed

text \<open>
  A backend whose session throws, and an effect whose role no model was loaded for: both
  leave the block as it was. A ready model that negates its input does change the block.
\<close>

theorem AIEffect_process_pass_through_witness:
  "inferenceFails (exampleAIEffect throwingModel) [[1, 2], [3, 4]] 2 \<and>
   (\<exists>fx1. AIEffect_process (exampleAIEffect throwingModel) [[1, 2], [3, 4]] 2
            = Inr (fx1, [[1, 2], [3, 4]])) \<and>
   \<not> OnnxEngine_isModelReady \<lparr>models = Map.empty\<rparr> ''vocal'' \<and>
   AIEffect_process (AIEffect_init (Some \<lparr>models = Map.empty\<rparr>) ''vocal'') [[1, 2], [3, 4]] 2
     = Inr (AIEffect_init (Some \<lparr>models = Map.empty\<rparr>) ''vocal'', [[1, 2], [3, 4]])"
  using AIEffect_process_pass_through [of "exampleAIEffect throwingModel" "[[1, 2], [3, 4]]" 2]
    AIEffect_process_pass_through
      [of "AIEffect_init (Some \<lparr>models = Map.empty\<rparr>) ''vocal''" "[[1, 2], [3, 4]]" 2]
  by (simp add: inferenceFails_def exampleAIEffect_def AIEffect_init_def throwingModel_def
      OnnxEngine_runInference_def OnnxModel_runInference_def OnnxModel_isReady_def
      OnnxEngine_isModelReady_def try_catch_def)

lemma AIEffect_process_ready_example:
  "map_sum id snd (AIEffect_process (exampleAIEffect negatingModel) [[1, 2], [3, 4]] 2)
     = Inr [[-1, -2], [-3, -4]]"
  by (simp add: exampleAIEffect_def AIEffect_init_def AIEffect_process_def
      OnnxEngine_isModelReady_def OnnxModel_isReady_def negatingModel_def
      OnnxEngine_runInference_def OnnxModel_runInference_def try_catch_def
      flattenBuffer_def for_each_def writeBack_def eval_nat_numeral)

subsection \<open>Mastering orchestrator\<close>

lemma processIf_fst:
  "fst (processIf enabled stage buffer n) = (if enabled then fst (run stage buffer n) else buffer)"
  by (simp add: processIf_def)

lemma processIf_snd:
  "snd (processIf enabled stage buffer n) = (if enabled then snd (run stage buffer n) else stage)"
  by (simp add: processIf_def)

lemma CinematicAudioEnhancer_process_order:
  "snd (CinematicAudioEnhancer_process e buffer n) =
     stagesApplied e (filter (stageEnabled e) stageOrder) n buffer"
  by (simp add: CinematicAudioEnhancer_process_def stagesApplied_def stageOrder_def
      case_prod_beta Let_def processIf_fst)

lemmas setter_defs =
  calls_def
      applyCinematicVocalPreset_def applyCinematicMasteringPreset_def applyViralAppealPreset_def
      setHighPassEnabled_def setHighPassCutoff_def setPresenceEQEnabled_def
      setPresenceFrequency_def setPresenceGain_def setVocalCompressorEnabled_def
      setVocalCompressorThreshold_def setVocalCompressorRatio_def setCinematicReverbEnabled_def
      setCinematicReverbSize_def setCinematicReverbMix_def setCinematicReverbPreDelay_def
      setSubtleDelayEnabled_def setSubtleDelayTime_def setSubtleDelayMix_def
      setModulationEnabled_def setModulationRate_def setModulationDepth_def setModulationMix_def
      setSaturationEnabled_def setSaturationDrive_def setMultibandCompressorEnabled_def
      setStereoImagerEnabled_def setStereoWidth_def setLoudnessNormalizerEnabled_def
      setTargetLUFS_def setFinalLimiterEnabled_def setLimiterCeiling_def

text \<open>
  The stage objects after the call: an enabled stage has processed the buffer that the enabled
  stages before it in the list have left, a disabled stage is as it was.
\<close>

lemma CinematicAudioEnhancer_process_stage:
  "stageOf (fst (CinematicAudioEnhancer_process e buffer n)) stage =
     (if stageEnabled e stage
      then snd (run (stageOf e stage)
                  (stagesApplied e
                     (filter (stageEnabled e) (takeWhile (\<lambda>s. s \<noteq> stage) stageOrder)) n buffer)
                  n)
      else stageOf e stage)"
  by (cases stage)
     (simp_all add: CinematicAudioEnhancer_process_def stagesApplied_def stageOrder_def
        case_prod_beta Let_def processIf_fst processIf_snd)

text \<open>The flags each preset leaves, whatever they were before.\<close>

lemma preset_enabled_stages:
  "filter (stageEnabled (applyPreset CinematicVocal e)) stageOrder =
     [HighPass, PresenceEQ, GentleCompressor, Delay, Reverb,
      MultibandComp, StereoImaging, LoudnessNorm, FinalLimit]"
  "filter (stageEnabled (applyPreset CinematicMastering e)) stageOrder =
     [Saturation, MultibandComp, StereoImaging, LoudnessNorm, FinalLimit]"
  "filter (stageEnabled (applyPreset ViralAppeal e)) stageOrder = stageOrder"
  by (simp_all add: stageOrder_def setter_defs)

text \<open>
  A preset writes every flag, and leaves in every slot the stage object that was there, with
  the preset's setter calls for that stage applied to it in sequence.
\<close>

lemma preset_flags:
  "stageEnabled (applyPreset preset e) stage = presetFlag preset stage"
  by (cases preset; cases stage; simp add: setter_defs)

lemma preset_stage_parameters:
  "stageOf (applyPreset preset e) stage =
     paramsApplied (presetParameters preset stage) (stageOf e stage)"
  by (cases preset; cases stage; simp add: setter_defs paramsApplied_def)

lemma preset_then_process:
  "snd (CinematicAudioEnhancer_process (applyPreset preset e) buffer n) =
     fold (\<lambda>stage b. fst (run (paramsApplied (presetParameters preset stage) (stageOf e stage)) b n))
       (filter (presetFlag preset) stageOrder) buffer"
proof -
  have flags: "stageEnabled (applyPreset preset e) = presetFlag preset"
    by (rule ext) (rule preset_flags)
  have "snd (CinematicAudioEnhancer_process (applyPreset preset e) buffer n) =
          stagesApplied (applyPreset preset e) (filter (presetFlag preset) stageOrder) n buffer"
    by (simp add: CinematicAudioEnhancer_process_order flags)
  then show ?thesis
    by (simp add: stagesApplied_def preset_stage_parameters)
qed

text \<open>
  Claim C8: for every block and every combination of the enable flags, the buffer that
  \<^verbatim>\<open>CinematicAudioEnhancer::process\<close> leaves is the result of running the stages of the fixed
  list high-pass, presence EQ, gentle compressor, modulation, saturation, delay, reverb,
  multiband compressor, stereo imager, loudness normalizer, final limiter whose flag is
  enabled, in that order, and no other stage: a stage whose flag is disabled is left as it
  was, a stage whose flag is enabled has processed the output of the enabled stages before
  it. Applying any of the three presets changes only flags and parameters: every flag takes
  the value the preset gives it, and every slot keeps its own stage object, to which only the
  preset's setter calls for that stage have been applied; no stage object moves to another
  slot. So process after a preset runs, in the same fixed order, the stages the preset
  enables, each the stage that was in its slot before, with the preset's parameters set.
\<close>

theorem CinematicAudioEnhancer_fixed_order:
  "snd (CinematicAudioEnhancer_process e buffer n) =
     stagesApplied e (filter (stageEnabled e) stageOrder) n buffer \<and>
   stageOf (fst (CinematicAudioEnhancer_process e buffer n)) stage =
     (if stageEnabled e stage
      then snd (run (stageOf e stage)
                  (stagesApplied e
                     (filter (stageEnabled e) (takeWhile (\<lambda>s. s \<noteq> stage) stageOrder)) n buffer)
                  n)
      else stageOf e stage) \<and>
   stageEnabled (applyPreset preset e) stage = presetFlag preset stage \<and>
   stageOf (applyPreset preset e) stage =
     paramsApplied (presetParameters preset stage) (stageOf e stage) \<and>
   snd (CinematicAudioEnhancer_process (applyPreset preset e) buffer n) =
     fold (\<lambda>stage b.
             fst (run (paramsApplied (presetParameters preset stage) (stageOf e stage)) b n))
       (filter (presetFlag preset) stageOrder) buffer"
proof (intro conjI)
  show "snd (CinematicAudioEnhancer_process e buffer n) =
          stagesApplied e (filter (stageEnabled e) stageOrder) n buffer"
    by (rule CinematicAudioEnhancer_process_order)
  show "stageOf (fst (CinematicAudioEnhancer_process e buffer n)) stage =
          (if stageEnabled e stage
           then snd (run (stageOf e stage)
                       (stagesApplied e
                          (filter (stageEnabled e) (takeWhile (\<lambda>s. s \<noteq> stage) stageOrder))
                          n buffer)
                       n)
           else stageOf e stage)"
    by (rule CinematicAudioEnhancer_process_stage)
  show "stageEnabled (applyPreset preset e) stage = presetFlag preset stage"
    by (rule preset_flags)
  show "stageOf (applyPreset preset e) stage =
          paramsApplied (presetParameters preset stage) (stageOf e stage)"
    by (rule preset_stage_parameters)
  show "snd (CinematicAudioEnhancer_process (applyPreset preset e) buffer n) =
          fold (\<lambda>stage b.
                  fst (run (paramsApplied (presetParameters preset stage) (stageOf e stage)) b n))
            (filter (presetFlag preset) stageOrder) buffer"
    by (rule preset_then_process)
qed

text \<open>
  On the example orchestrator, whose high-pass multiplies by the parameter last set: before
  any preset only the modulation runs (1 + 100); after the vocal preset the high-pass with
  its cutoff set to 80, the EQ and the limiter act in that order ((1 * 80 + 3) + 1); after
  the mastering preset the saturation and the limiter (1 * 10 + 1); after the viral preset
  all stages, the high-pass set to 100 and the modulation before the saturation
  (((1 * 100 + 3) + 100) * 10 + 1).
\<close>

lemma exampleEnhancer_unset:
  "stagesApplied exampleEnhancer (filter (stageEnabled exampleEnhancer) stageOrder) 1 [[1]]
     = [[101]]"
  by (simp add: stagesApplied_def stageOrder_def exampleEnhancer_def)

lemma exampleEnhancer_preset_values:
  "fold (\<lambda>stage b.
           fst (run (paramsApplied (presetParameters CinematicVocal stage)
                       (stageOf exampleEnhancer stage)) b 1))
     (filter (presetFlag CinematicVocal) stageOrder) [[1]] = [[84]]"
  "fold (\<lambda>stage b.
           fst (run (paramsApplied (presetParameters CinematicMastering stage)
                       (stageOf exampleEnhancer stage)) b 1))
     (filter (presetFlag CinematicMastering) stageOrder) [[1]] = [[11]]"
  "fold (\<lambda>stage b.
           fst (run (paramsApplied (presetParameters ViralAppeal stage)
                       (stageOf exampleEnhancer stage)) b 1))
     (filter (presetFlag ViralAppeal) stageOrder) [[1]] = [[2031]]"
  by (simp_all add: stageOrder_def exampleEnhancer_def paramsApplied_def)

lemma exampleEnhancer_highPass_set:
  "paramsApplied (presetParameters ViralAppeal HighPass) (stageOf exampleEnhancer HighPass)
     = tunableGainStage 100"
  by (simp add: exampleEnhancer_def paramsApplied_def)

theorem CinematicAudioEnhancer_fixed_order_witness:
  "snd (CinematicAudioEnhancer_process exampleEnhancer [[1]] 1) = [[101]] \<and>
   snd (CinematicAudioEnhancer_process (applyPreset CinematicVocal exampleEnhancer) [[1]] 1)
     = [[84]] \<and>
   snd (CinematicAudioEnhancer_process (applyPreset CinematicMastering exampleEnhancer) [[1]] 1)
     = [[11]] \<and>
   snd (CinematicAudioEnhancer_process (applyPreset ViralAppeal exampleEnhancer) [[1]] 1)
     = [[2031]] \<and>
   stageOf (applyPreset ViralAppeal exampleEnhancer) HighPass = tunableGainStage 100"
  using
    CinematicAudioEnhancer_fixed_order
      [where e = exampleEnhancer and buffer = "[[1]]" and n = 1 and stage = HighPass
         and preset = CinematicVocal]
    CinematicAudioEnhancer_fixed_order
      [where e = exampleEnhancer and buffer = "[[1]]" and n = 1 and stage = HighPass
         and preset = CinematicMastering]
    CinematicAudioEnhancer_fixed_order
      [where e = exampleEnhancer and buffer = "[[1]]" and n = 1 and stage = HighPass
         and preset = ViralAppeal]
  by (simp only: exampleEnhancer_unset exampleEnhancer_preset_values
      exampleEnhancer_highPass_set simp_thms)
subsection \<open>Multiband compressor\<close>

lemma MultibandCompressor_allocate_hasSize:
  "hasSize (midBandBuffer (MultibandCompressor_allocate numChannels maximumBlockSize s))
     numChannels maximumBlockSize"
  by (simp add: MultibandCompressor_allocate_def hasSize_def list_all_length)

lemma dsp_mid_band:
  assumes "hasSize (midBandBuffer s) C M" and "length buffer \<le> C"
    and "getNumSamples buffer \<le> M" and "ch < length buffer" and "i < getNumSamples buffer"
  shows "midBandBuffer (dsp_MultibandCompressor_split crossover s buffer) ! ch ! i =
           buffer ! ch ! i
           - lowBandBuffer (dsp_MultibandCompressor_split crossover s buffer) ! ch ! i
           - highBandBuffer (dsp_MultibandCompressor_split crossover s buffer) ! ch ! i"
proof -
  let ?n = "getNumSamples buffer"
  let ?mid0 = "for_each (length buffer) (\<lambda>ch b. copyFrom b ch buffer ch ?n) (midBandBuffer s)"
  have ch: "ch < length (midBandBuffer s)"
    using assms by (simp add: hasSize_def)
  have len0: "length ?mid0 = length (midBandBuffer s)"
    by (rule copyFrom_loop_length)
  have len1: "length (?mid0 ! ch) = M"
    using assms ch by (simp add: copyFrom_loop_nth length_for_each_set hasSize_nth)
  have i: "i < length (?mid0 ! ch)"
    using len1 assms by simp
  show ?thesis
    using assms(4,5) ch len0 i
    by (simp add: dsp_MultibandCompressor_split_def Let_def copy_three case_prod_beta
        nth_for_each_update [where g = "\<lambda>ch c. for_each n (\<lambda>i midData. midData[i := f ch i]) c" for n f]
        nth_for_each_set)
qed


lemma MAEVN_mid_band:
  assumes "hasSize (midBandBuffer s) 2 M" and "n \<le> M" and "ch < 2" and "i < n"
  shows "midBandBuffer (MAEVN_MultibandCompressor_split crossover s buffer n) ! ch ! i =
           buffer ! ch ! i
           - lowBandBuffer (MAEVN_MultibandCompressor_split crossover s buffer n) ! ch ! i
           - highBandBuffer (MAEVN_MultibandCompressor_split crossover s buffer n) ! ch ! i"
proof -
  let ?mid0 = "copyFrom (copyFrom (midBandBuffer s) 0 buffer 0 n) 1 buffer 1 n"
  have len: "length (midBandBuffer s) = 2"
    using assms by (simp add: hasSize_def)
  have lens: "length (midBandBuffer s ! 0) = M" "length (midBandBuffer s ! 1) = M"
    using assms(1) by (simp_all add: hasSize_nth)
  have len0: "length ?mid0 = 2"
    using len by (simp add: copyFrom_length)
  have ch: "ch = 0 \<or> ch = 1"
    using assms(3) by auto
  have len1: "length (?mid0 ! ch) = M"
    using ch lens by (auto simp add: copyFrom_length_nth)
  have val: "?mid0 ! ch ! i = buffer ! ch ! i"
    using assms(2,4) ch len lens
    by (auto simp add: copyFrom_nth copyFrom_length copyFrom_length_nth)
  show ?thesis
    using assms(2,3,4) len0 len1 val
    by (simp add: MAEVN_MultibandCompressor_split_def Let_def case_prod_beta
        nth_for_each_update
          [where g = "\<lambda>ch c. for_each n (\<lambda>i midData. midData[i := midData ! i - f ch i]) c"
           for n f, simplified]
        nth_for_each_update [where g = "\<lambda>i x. x - f i" for f] diff_diff_eq)
qed

text \<open>
  Claim C2: in both multiband compressors, for every sample of the input block the three band
  buffers computed before the per-band compression satisfy mid = x - low - high and
  low + mid + high = x, whatever the crossover filters compute. Samples are real numbers
  here, so the sum is exact; the claim asks for it within floating-point tolerance. The
  compressor has been prepared (band buffers of numChannels channels of maxBlockSize samples)
  and the block fits.
\<close>

theorem MultibandCompressor_band_sum:
  assumes "hasSize (midBandBuffer s) numChannels maxBlockSize"
  shows
    "(length buffer \<le> numChannels \<and> getNumSamples buffer \<le> maxBlockSize \<and>
      ch < length buffer \<and> i < getNumSamples buffer \<longrightarrow>
        (let s1 = dsp_MultibandCompressor_split crossover s buffer
         in midBandBuffer s1 ! ch ! i =
              buffer ! ch ! i - lowBandBuffer s1 ! ch ! i - highBandBuffer s1 ! ch ! i \<and>
            lowBandBuffer s1 ! ch ! i + midBandBuffer s1 ! ch ! i + highBandBuffer s1 ! ch ! i
              = buffer ! ch ! i)) \<and>
     (numChannels = 2 \<and> numSamples \<le> maxBlockSize \<and> ch < 2 \<and> i < numSamples \<longrightarrow>
        (let s1 = MAEVN_MultibandCompressor_split crossover s buffer numSamples
         in midBandBuffer s1 ! ch ! i =
              buffer ! ch ! i - lowBandBuffer s1 ! ch ! i - highBandBuffer s1 ! ch ! i \<and>
            lowBandBuffer s1 ! ch ! i + midBandBuffer s1 ! ch ! i + highBandBuffer s1 ! ch ! i
              = buffer ! ch ! i))"
proof -
  have A: "midBandBuffer (dsp_MultibandCompressor_split crossover s buffer) ! ch ! i =
             buffer ! ch ! i
             - lowBandBuffer (dsp_MultibandCompressor_split crossover s buffer) ! ch ! i
             - highBandBuffer (dsp_MultibandCompressor_split crossover s buffer) ! ch ! i"
    if "length buffer \<le> numChannels" "getNumSamples buffer \<le> maxBlockSize"
       "ch < length buffer" "i < getNumSamples buffer"
    using dsp_mid_band [OF assms that] .
  have B: "midBandBuffer (MAEVN_MultibandCompressor_split crossover s buffer numSamples) ! ch ! i =
             buffer ! ch ! i
             - lowBandBuffer (MAEVN_MultibandCompressor_split crossover s buffer numSamples) ! ch ! i
             - highBandBuffer (MAEVN_MultibandCompressor_split crossover s buffer numSamples) ! ch ! i"
    if "numChannels = 2" "numSamples \<le> maxBlockSize" "ch < 2" "i < numSamples"
    using MAEVN_mid_band [of s maxBlockSize numSamples ch i crossover buffer] assms that by simp
  show ?thesis
    using A B by (simp add: Let_def)
qed

lemma exampleMultiband_dsp:
  "dsp_MultibandCompressor_split exampleCrossover exampleMultiband [[4, 8, 12], [16, 20, 24]] =
     exampleMultiband
       \<lparr>lowBandBuffer := [[2, 4, 6], [8, 10, 12]],
        midBandBuffer := [[1, 2, 3], [4, 5, 6]],
        highBandBuffer := [[1, 2, 3], [4, 5, 6]]\<rparr>"
  by (simp add: dsp_MultibandCompressor_split_def exampleMultiband_def exampleCrossover_def
      getNumSamples_def copyFrom_def for_each_def eval_nat_numeral)

lemma exampleMultiband_MAEVN:
  "MAEVN_MultibandCompressor_split exampleCrossover exampleMultiband [[4, 8, 12], [16, 20, 24]] 2 =
     exampleMultiband
       \<lparr>lowBandBuffer := [[2, 4, 0], [8, 10, 0]],
        midBandBuffer := [[1, 2, 0], [4, 5, 0]],
        highBandBuffer := [[1, 2, 0], [4, 5, 0]]\<rparr>"
  by (simp add: MAEVN_MultibandCompressor_split_def exampleMultiband_def exampleCrossover_def
      processBlock_def copyFrom_def for_each_def eval_nat_numeral)

theorem MultibandCompressor_band_sum_witness:
  "hasSize (midBandBuffer exampleMultiband) 2 3 \<and>
   (let buffer = [[4, 8, 12], [16, 20, 24]];
        s1 = dsp_MultibandCompressor_split exampleCrossover exampleMultiband buffer;
        s2 = MAEVN_MultibandCompressor_split exampleCrossover exampleMultiband buffer 2
    in length buffer \<le> 2 \<and> getNumSamples buffer \<le> 3 \<and>
       lowBandBuffer s1 ! 1 ! 2 = 12 \<and> midBandBuffer s1 ! 1 ! 2 = 6 \<and>
       highBandBuffer s1 ! 1 ! 2 = 6 \<and>
       lowBandBuffer s1 ! 1 ! 2 + midBandBuffer s1 ! 1 ! 2 + highBandBuffer s1 ! 1 ! 2
         = buffer ! 1 ! 2 \<and>
       lowBandBuffer s2 ! 1 ! 1 + midBandBuffer s2 ! 1 ! 1 + highBandBuffer s2 ! 1 ! 1
         = buffer ! 1 ! 1)"
  using MultibandCompressor_band_sum
          [of exampleMultiband 2 3 "[[4, 8, 12], [16, 20, 24]]" 1 2 exampleCrossover]
        MultibandCompressor_band_sum
          [of exampleMultiband 2 3 "[[4, 8, 12], [16, 20, 24]]" 1 1 exampleCrossover 2]
  by (simp add: exampleMultiband_dsp exampleMultiband_MAEVN Let_def)
     (simp add: exampleMultiband_def hasSize_def getNumSamples_def)

subsection \<open>Loudness normalizer\<close>

lemma jlimit_bounds: "lo \<le> hi \<Longrightarrow> lo \<le> jlimit lo hi v \<and> jlimit lo hi v \<le> hi"
  by (simp add: jlimit_def)

text \<open>
  Claim C5: for every block, \<^verbatim>\<open>LoudnessNormalizer::process\<close> multiplies the block by the
  current smoothed gain, whether or not a window ended in it. The count grows by
  numSamples times the number of channels; as long as it stays below the window size of
  44100 the gain is unchanged; when it reaches the window size the level is computed from the
  accumulated sum, the gain delta toward the target is clamped to the range from -12 dB to
  12 dB, the gain becomes gain * 0.9 + target * 0.1 for the linear target of that delta, and
  the sum and the count start again at zero.
\<close>

theorem LoudnessNormalizer_gain_law:
  "(let count = rmsSampleCount s + int numSamples * int (length buffer);
        squares = rmsSum s + sumSquares buffer numSamples;
        s1 = fst (LoudnessNormalizer_process s buffer numSamples);
        out = snd (LoudnessNormalizer_process s buffer numSamples)
    in out = applyGain (currentGain s1) buffer \<and>
       (count < RMS_WINDOW_SIZE \<longrightarrow>
          currentGain s1 = currentGain s \<and> rmsSampleCount s1 = count \<and> rmsSum s1 = squares) \<and>
       (count \<ge> RMS_WINDOW_SIZE \<longrightarrow>
          currentLUFS s1 = measuredLUFS squares count \<and>
          currentGain s1 =
            currentGain s * 0.9 + dBToGain (clampedGainDB s (currentLUFS s1)) * 0.1 \<and>
          - 12 \<le> clampedGainDB s (currentLUFS s1) \<and> clampedGainDB s (currentLUFS s1) \<le> 12 \<and>
          rmsSampleCount s1 = 0 \<and> rmsSum s1 = 0))"
  by (simp add: LoudnessNormalizer_process_def LoudnessNormalizer_updateGain_def Let_def
      clampedGainDB_def measuredLUFS_def jlimit_def)

lemma log10_tiny: "log 10 (1 / 10000000) = - 7"
proof -
  have "log 10 (1 / 10000000) = - log 10 (10 ^ 7)"
    by (simp add: log_divide)
  then show ?thesis
    by (simp only: log_pow_cancel) 
qed

lemma exampleNormalizer_fields:
  "rmsSampleCount (exampleNormalizer count) = count"
  "currentGain (exampleNormalizer count) = 2"
  "targetLUFS (exampleNormalizer count) = - 14"
  "rmsSum (exampleNormalizer count) = 0"
  by (simp_all add: exampleNormalizer_def LoudnessNormalizer_init_def)

lemma exampleNormalizer_inside_window:
  "LoudnessNormalizer_process (exampleNormalizer 0) [[1/2], [1/4]] (Suc 0)
     = ((exampleNormalizer 2)\<lparr>rmsSum := 5/16\<rparr>, [[1], [1/2]])"
  by (simp add: LoudnessNormalizer_process_def exampleNormalizer_def LoudnessNormalizer_init_def
      sumSquares_def for_each_def applyGain_def RMS_WINDOW_SIZE_def)

lemma exampleNormalizer_window_end:
  "LoudnessNormalizer_process (exampleNormalizer 44098) [[0], [0]] (Suc 0)
     = ((exampleNormalizer 0)\<lparr>currentLUFS := - 140, currentGain := 2 * 0.9 + dBToGain 12 * 0.1\<rparr>,
        [[0], [0]])"
  by (simp add: LoudnessNormalizer_process_def exampleNormalizer_def LoudnessNormalizer_init_def
      sumSquares_def for_each_def RMS_WINDOW_SIZE_def LoudnessNormalizer_updateGain_def
      jlimit_def log10_tiny Let_def applyGain_def)

theorem LoudnessNormalizer_gain_law_witness:
  "rmsSampleCount (exampleNormalizer 0) + int 1 * int (length [[1/2], [1/4::real]])
     < RMS_WINDOW_SIZE \<and>
   LoudnessNormalizer_process (exampleNormalizer 0) [[1/2], [1/4]] 1
     = ((exampleNormalizer 2)\<lparr>rmsSum := 5/16\<rparr>, [[1], [1/2]]) \<and>
   rmsSampleCount (exampleNormalizer 44098) + int 1 * int (length [[0], [0::real]])
     \<ge> RMS_WINDOW_SIZE \<and>
   clampedGainDB (exampleNormalizer 44098)
     (currentLUFS (fst (LoudnessNormalizer_process (exampleNormalizer 44098) [[0], [0]] 1))) = 12 \<and>
   currentGain (fst (LoudnessNormalizer_process (exampleNormalizer 44098) [[0], [0]] 1))
     = 2 * 0.9 + dBToGain 12 * 0.1"
  using LoudnessNormalizer_gain_law [of "exampleNormalizer 0" 1 "[[1/2], [1/4]]"]
    LoudnessNormalizer_gain_law [of "exampleNormalizer 44098" 1 "[[0], [0]]"]
  by (simp add: exampleNormalizer_inside_window exampleNormalizer_window_end
      exampleNormalizer_fields Let_def RMS_WINDOW_SIZE_def clampedGainDB_def jlimit_def)

subsection \<open>De-esser\<close>

lemma DeEsser_prepare_hasSize:
  "hasSize (sideChainBuffer (DeEsser_prepare numChannels maximumBlockSize sampleRate s))
     numChannels maximumBlockSize"
  by (simp add: DeEsser_prepare_def hasSize_def list_all_length)

lemma gain_channels_nth:
  "for_each C (\<lambda>ch b. b[ch := (b ! ch)[i := b ! ch ! i * g]]) b ! k =
     (if k < C \<and> k < length b then (b ! k)[i := b ! k ! i * g] else b ! k)"
  using nth_for_each_update [of C "\<lambda>ch c. c[i := c ! i * g]" b k] by simp

lemma gain_channels_length:
  "length (for_each C (\<lambda>ch b. b[ch := (b ! ch)[i := b ! ch ! i * g]]) b) = length b"
  by (rule length_for_each_update)

lemma gain_loop_length:
  "length (for_each n
            (\<lambda>i b. for_each C (\<lambda>ch b. b[ch := (b ! ch)[i := b ! ch ! i * G i]]) b) b) = length b"
  by (induction n) (simp_all add: for_each_0 for_each_Suc gain_channels_length)

lemma gain_loop_length_nth:
  "length (for_each n
            (\<lambda>i b. for_each C (\<lambda>ch b. b[ch := (b ! ch)[i := b ! ch ! i * G i]]) b) b ! k)
     = length (b ! k)"
  by (induction n)
     (simp_all add: for_each_0 for_each_Suc gain_channels_nth gain_loop_length)

lemma gain_loop_nth:
  "for_each n
     (\<lambda>i b. for_each C (\<lambda>ch b. b[ch := (b ! ch)[i := b ! ch ! i * G i]]) b) b ! k ! j =
     (if k < C \<and> k < length b \<and> j < n \<and> j < length (b ! k)
      then b ! k ! j * G j else b ! k ! j)"
proof (induction n)
  case 0
  show ?case by (simp add: for_each_0)
next
  case (Suc n)
  show ?case
    using Suc
    by (cases "j = n")
       (auto simp add: for_each_Suc gain_channels_nth gain_loop_length gain_loop_length_nth
          less_Suc_eq list_update_beyond)
qed

lemma sibilanceLevel_meanAbs: "sibilanceLevel sc C i = meanAbs sc C i"
proof -
  have "for_each C (\<lambda>ch level. level + \<bar>sc ! ch ! i\<bar>) a = a + (\<Sum>ch = 0..<C. \<bar>sc ! ch ! i\<bar>)" for a
    by (induction C) (simp_all add: for_each_0 for_each_Suc)
  from this [of 0] show ?thesis
    by (simp add: sibilanceLevel_def meanAbs_def)
qed

lemma getNumSamples_hasSize: "hasSize b C n \<Longrightarrow> 0 < C \<Longrightarrow> getNumSamples b = n"
  by (cases b) (simp_all add: getNumSamples_def hasSize_def)

lemma DeEsser_process_nth:
  assumes "ch < length buffer" and "i < length (buffer ! ch)"
  shows "snd (DeEsser_process highpass s buffer) ! ch ! i =
           (if i < getNumSamples buffer
            then buffer ! ch ! i *
                 gainReduction (threshold s) (ratio s)
                   (meanAbs (sideChainBuffer (fst (DeEsser_process highpass s buffer)))
                      (length buffer) i)
            else buffer ! ch ! i)"
  using assms
  by (simp add: DeEsser_process_def Let_def case_prod_beta gain_loop_nth sibilanceLevel_meanAbs)

lemma dBToGain_pos: "0 < dBToGain dB"
  by (simp add: dBToGain_def)

lemma gainReduction_range:
  assumes "1 \<le> r"
  shows "0 < gainReduction thr r level \<and> gainReduction thr r level \<le> 1"
proof (cases "level > dBToGain thr")
  case False
  then show ?thesis by (simp add: gainReduction_def Let_def)
next
  case True
  let ?over = "level / dBToGain thr"
  have over: "1 < ?over"
    using True dBToGain_pos [of thr] by simp
  have e: "0 \<le> 1 - 1 / r"
    using assms by simp
  have inv: "0 < 1 / p \<and> 1 / p \<le> 1" if "1 \<le> p" for p :: real
    using that by (simp add: field_simps)
  have "1 \<le> ?over powr (1 - 1 / r)"
    using over e by (simp add: ge_one_powr_ge_zero)
  then have "0 < 1 / (?over powr (1 - 1 / r)) \<and> 1 / (?over powr (1 - 1 / r)) \<le> 1"
    by (rule inv)
  then show ?thesis
    using True by (simp add: gainReduction_def Let_def)
qed


lemma sideChain_copy_nth:
  assumes "hasSize sc maxChannels maxBlockSize" and "C \<le> maxChannels" and "n \<le> maxBlockSize"
    and "ch < C" and "i < n"
  shows "for_each C (\<lambda>ch b. copyFrom b ch buffer ch n) sc ! ch ! i = buffer ! ch ! i"
  using assms
  by (simp add: copyFrom_loop_nth nth_for_each_set hasSize_def list_all_length)

lemma four_powr_half: "(4::real) powr (1 / 2) = 2"
  by (simp add: powr_half_sqrt)

lemma exampleDeEsser_fields:
  "ratio exampleDeEsser = 2" "threshold exampleDeEsser = 0"
  "sideChainBuffer exampleDeEsser = [[0, 0], [0, 0]]" "sibilanceFilter exampleDeEsser = 1"
  by (simp_all add: exampleDeEsser_def DeEsser_prepare_def DeEsser_setThreshold_def
      DeEsser_setRatio_def DeEsser_init_def jlimit_def eval_nat_numeral)

lemma exampleDeEsser_process:
  "snd (DeEsser_process exampleHighpass exampleDeEsser [[4, 1/2], [- 4, 1/2]])
     = [[2, 1/2], [- 2, 1/2]]"
  by (simp add: DeEsser_process_def exampleDeEsser_fields exampleHighpass_def getNumSamples_def
      copyFrom_def for_each_def sibilanceLevel_def gainReduction_def dBToGain_def Let_def
      four_powr_half eval_nat_numeral)


text \<open>
  Claim C6: for every sample \<open>i\<close> of a block that fits the prepared de-esser, the sidechain
  copy holds the input sample, the sibilance level is the mean absolute value across the
  channels of the high-pass-filtered sidechain copy at \<open>i\<close>, and the output sample is the
  input sample times 1 / (level / threshold) powr (1 - 1 / ratio) when the level exceeds the
  linear threshold, and the input sample itself otherwise. The output is the original
  sample scaled: the filtered copy enters only through the level.
\<close>

theorem DeEsser_process_gain:
  assumes "hasSize buffer numChannels numSamples"
    and "hasSize (sideChainBuffer s) maxChannels maxBlockSize"
    and "numChannels \<le> maxChannels" and "numSamples \<le> maxBlockSize"
    and "ch < numChannels" and "i < numSamples"
  shows
    "(let sideChainCopy = for_each numChannels (\<lambda>ch b. copyFrom b ch buffer ch numSamples)
                            (sideChainBuffer s);
          filtered = snd (highpass (sibilanceFilter s) sideChainCopy);
          level = meanAbs filtered numChannels i;
          thresholdLinear = dBToGain (threshold s);
          out = snd (DeEsser_process highpass s buffer)
      in sideChainCopy ! ch ! i = buffer ! ch ! i \<and>
         (level > thresholdLinear \<longrightarrow>
            out ! ch ! i =
              buffer ! ch ! i * (1 / ((level / thresholdLinear) powr (1 - 1 / ratio s)))) \<and>
         (level \<le> thresholdLinear \<longrightarrow> out ! ch ! i = buffer ! ch ! i))"
proof -
  have n: "getNumSamples buffer = numSamples" and C: "length buffer = numChannels"
    using assms(1,5) by (simp_all add: getNumSamples_hasSize hasSize_length)
  have len: "length (buffer ! ch) = numSamples"
    using assms(1,5) by (simp add: hasSize_nth)
  have sc: "sideChainBuffer (fst (DeEsser_process highpass s buffer)) =
              snd (highpass (sibilanceFilter s)
                     (for_each numChannels (\<lambda>ch b. copyFrom b ch buffer ch numSamples)
                        (sideChainBuffer s)))"
    by (simp add: DeEsser_process_def Let_def case_prod_beta n C)
  have out: "snd (DeEsser_process highpass s buffer) ! ch ! i =
               buffer ! ch ! i *
               gainReduction (threshold s) (ratio s)
                 (meanAbs (sideChainBuffer (fst (DeEsser_process highpass s buffer)))
                    numChannels i)"
    using DeEsser_process_nth [of ch buffer i highpass s] assms(5,6) n C len by simp
  show ?thesis
    using out sideChain_copy_nth [OF assms(2,3,4,5,6), of buffer]
    by (simp add: Let_def sc gainReduction_def)
qed

theorem DeEsser_process_gain_witness:
  "hasSize [[4, 1/2], [- 4, 1/2]] 2 2 \<and> hasSize (sideChainBuffer exampleDeEsser) 2 2 \<and>
   meanAbs (snd (exampleHighpass (sibilanceFilter exampleDeEsser)
                   (for_each 2 (\<lambda>ch b. copyFrom b ch [[4, 1/2], [- 4, 1/2]] ch 2)
                      (sideChainBuffer exampleDeEsser)))) 2 0 = 4 \<and>
   dBToGain (threshold exampleDeEsser) = 1 \<and>
   snd (DeEsser_process exampleHighpass exampleDeEsser [[4, 1/2], [- 4, 1/2]]) ! 0 ! 0
     = 4 * (1 / ((4 / 1) powr (1 - 1 / 2))) \<and>
   snd (DeEsser_process exampleHighpass exampleDeEsser [[4, 1/2], [- 4, 1/2]]) ! 0 ! 1 = 1 / 2"
  using DeEsser_process_gain
          [of "[[4, 1/2], [- 4, 1/2]]" 2 2 exampleDeEsser 2 2 0 0 exampleHighpass]
        DeEsser_process_gain
          [of "[[4, 1/2], [- 4, 1/2]]" 2 2 exampleDeEsser 2 2 0 1 exampleHighpass]
  by (simp add: exampleDeEsser_process exampleDeEsser_fields hasSize_def meanAbs_def
      exampleHighpass_def copyFrom_def for_each_def dBToGain_def four_powr_half
      eval_nat_numeral)

text \<open>
  Claim C10: the de-esser never amplifies. The constructor sets the ratio to 4 and setRatio
  clamps it to at least 1; for a ratio of at least 1 the gain of a sample is in (0, 1], and
  it is 1 when the level is at or below the linear threshold; so every output sample of a
  block is at most the input sample in absolute value.
\<close>

theorem DeEsser_never_amplifies:
  assumes "1 \<le> ratio s" and "hasSize buffer numChannels numSamples"
    and "ch < numChannels" and "i < numSamples"
  shows
    "\<bar>snd (DeEsser_process highpass s buffer) ! ch ! i\<bar> \<le> \<bar>buffer ! ch ! i\<bar> \<and>
     0 < gainReduction (threshold s) (ratio s) level \<and>
     gainReduction (threshold s) (ratio s) level \<le> 1 \<and>
     (level \<le> dBToGain (threshold s) \<longrightarrow> gainReduction (threshold s) (ratio s) level = 1) \<and>
     1 \<le> ratio (DeEsser_setRatio r s) \<and> 1 \<le> ratio (DeEsser_init filterState :: 'a DeEsser)"
proof -
  have n: "getNumSamples buffer = numSamples" and C: "length buffer = numChannels"
    using assms(2,3) by (simp_all add: getNumSamples_hasSize hasSize_length)
  have len: "length (buffer ! ch) = numSamples"
    using assms(2,3) by (simp add: hasSize_nth)
  let ?g = "gainReduction (threshold s) (ratio s)
              (meanAbs (sideChainBuffer (fst (DeEsser_process highpass s buffer))) numChannels i)"
  have out: "snd (DeEsser_process highpass s buffer) ! ch ! i = buffer ! ch ! i * ?g"
    using DeEsser_process_nth [of ch buffer i highpass s] assms(3,4) n C len by simp
  have g: "0 < ?g \<and> ?g \<le> 1"
    using assms(1) by (rule gainReduction_range)
  have "\<bar>buffer ! ch ! i * ?g\<bar> = \<bar>buffer ! ch ! i\<bar> * ?g"
    using g by (simp add: abs_mult)
  also have "\<dots> \<le> \<bar>buffer ! ch ! i\<bar> * 1"
    using g by (intro mult_left_mono) simp_all
  finally have abs: "\<bar>snd (DeEsser_process highpass s buffer) ! ch ! i\<bar> \<le> \<bar>buffer ! ch ! i\<bar>"
    using out by simp
  show ?thesis
    using abs gainReduction_range [OF assms(1), of "threshold s" level]
    by (simp add: gainReduction_def Let_def DeEsser_setRatio_def DeEsser_init_def jlimit_def)
qed

theorem DeEsser_never_amplifies_witness:
  "1 \<le> ratio exampleDeEsser \<and> hasSize [[4, 1/2], [- 4, 1/2]] 2 2 \<and>
   snd (DeEsser_process exampleHighpass exampleDeEsser [[4, 1/2], [- 4, 1/2]]) ! 1 ! 0 = - 2 \<and>
   \<bar>snd (DeEsser_process exampleHighpass exampleDeEsser [[4, 1/2], [- 4, 1/2]]) ! 1 ! 0\<bar>
     \<le> \<bar>[[4, 1/2], [- 4, 1/2]] ! 1 ! 0\<bar>"
  using DeEsser_never_amplifies
          [of exampleDeEsser "[[4, 1/2], [- 4, 1/2]]" 2 2 1 0 exampleHighpass]
  by (simp add: exampleDeEsser_process exampleDeEsser_fields hasSize_def)

subsection \<open>Reverb pre-delay\<close>

lemma preDelaySample_lift:
  assumes "ch < length (bufferData d)" "ch < length (writePos d)" "ch < length (readPos d)"
    "ch < length b"
  shows "preDelaySample ch i (liftChannel ch d b (ring, w, r, samples)) =
           liftChannel ch d b (channelStep (totalSize d) (delayInt d) (delayFrac d) i (ring, w, r, samples))"
  using assms
  by (simp add: preDelaySample_def liftChannel_def channelStep_def DelayLine_popSample_def
      DelayLine_pushSample_def DelayLine_interpolateSample_def Let_def case_prod_beta)

lemma channel_loop_lift:
  assumes "ch < length (bufferData d)" "ch < length (writePos d)" "ch < length (readPos d)"
    "ch < length b"
  shows "for_each m (\<lambda>i state. preDelaySample ch i state) (liftChannel ch d b st) =
           liftChannel ch d b (for_each m (channelStep (totalSize d) (delayInt d) (delayFrac d)) st)"
proof (induction m)
  case 0
  show ?case by (simp add: for_each_0)
next
  case (Suc m)
  obtain ring w r samples where
    "for_each m (channelStep (totalSize d) (delayInt d) (delayFrac d)) st = (ring, w, r, samples)"
    by (metis prod_cases4)
  then show ?case
    using Suc preDelaySample_lift [OF assms] by (simp add: for_each_Suc)
qed

lemma liftChannel_id:
  "liftChannel ch d b (bufferData d ! ch, writePos d ! ch, readPos d ! ch, b ! ch) = (d, b)"
  by (simp add: liftChannel_def)

lemma ring_step_index:
  fixes w S j :: nat
  assumes "w < S"
  shows "((w + S - 1) mod S + 1 + j) mod S = (w + j) mod S"
proof -
  have "((w + S - 1) mod S + 1 + j) mod S = ((w + S - 1) mod S + (1 + j)) mod S"
    by (simp add: add.assoc)
  also have "\<dots> = ((w + S - 1) + (1 + j)) mod S"
    by (simp only: mod_add_left_eq)
  also have "(w + S - 1) + (1 + j) = (w + j) + S"
    using assms by linarith
  finally show ?thesis
    by simp
qed

lemma ring_other_index:
  fixes w S j :: nat
  assumes "w < S" and "0 < j" and "j < S"
  shows "(w + j) mod S \<noteq> w"
proof (cases "w + j < S")
  case True
  then have "(w + j) mod S = w + j"
    by simp
  then show ?thesis
    using assms(2) by simp
next
  case False
  then have "(w + j) mod S = w + j - S"
    using assms by (simp add: mod_if)
  then show ?thesis
    using assms False by linarith
qed

lemma read_index:
  fixes w S N :: nat
  assumes "w < S" and "N < S"
  shows "(if w + N + 1 \<ge> S then (w + N) mod S else w + N) = (w + 1 + (loopDelay S N - 1)) mod S"
proof (cases "N = 0")
  case True
  have "w + 1 + (S - 1) = w + S"
    using assms(1) by linarith
  then have "(w + 1 + (loopDelay S N - 1)) mod S = w"
    using assms(1) True by (simp add: loopDelay_def)
  then show ?thesis
    using assms(1) True by simp
next
  case False
  then have eq: "w + 1 + (loopDelay S N - 1) = w + N"
    by (simp add: loopDelay_def)
  show ?thesis
    unfolding eq by simp
qed

lemma loopDelay_bounds:
  assumes "N < S"
  shows "1 \<le> loopDelay S N" and "loopDelay S N \<le> S"
  using assms by (simp_all add: loopDelay_def)

lemma channelInv_step:
  assumes inv: "channelInv S (loopDelay S N) xs m st" and N: "N < S" and m: "m < length xs"
  shows "channelInv S (loopDelay S N) xs (Suc m) (channelStep S N 0 m st)"
proof -
  let ?D = "loopDelay S N"
  obtain ring w r out where st: "st = (ring, w, r, out)"
    by (metis prod_cases4)
  have r: "r = w" and w: "w < S" and len: "length ring = S"
    and ring: "\<And>j. j < S \<Longrightarrow> ring ! ((w + 1 + j) mod S) = (if j < m then xs ! (m - 1 - j) else 0)"
    and lout: "length out = length xs"
    and out: "\<And>k. k < length xs \<Longrightarrow>
                out ! k = (if k < m then (if k < ?D then 0 else xs ! (k - ?D)) else xs ! k)"
    using inv by (simp_all add: channelInv_def st)
  have D: "1 \<le> ?D" "?D \<le> S"
    using loopDelay_bounds [OF N] .
  let ?idx = "(w + 1 + (?D - 1)) mod S"
  have delayed: "ring ! ?idx = (if m < ?D then 0 else xs ! (m - ?D))"
    using ring [of "?D - 1"] D by (auto simp add: Suc_diff_le)
  have step: "channelStep S N 0 m st =
                (ring[w := xs ! m], (w + S - 1) mod S, (w + S - 1) mod S, out[m := ring ! ?idx])"
    using read_index [OF w N] out [OF m]
    by (simp add: channelStep_def st r Let_def case_prod_beta split: if_splits)
  have ring': "ring[w := xs ! m] ! (((w + S - 1) mod S + 1 + j) mod S) =
                 (if j < Suc m then xs ! (Suc m - 1 - j) else 0)" if j: "j < S" for j
  proof -
    have idx: "((w + S - 1) mod S + 1 + j) mod S = (w + j) mod S"
      by (rule ring_step_index [OF w])
    have "ring[w := xs ! m] ! ((w + j) mod S) =
            (if j < Suc m then xs ! (Suc m - 1 - j) else 0)"
    proof (cases "j = 0")
      case True
      then show ?thesis
        using w len by simp
    next
      case False
      then have neq: "(w + j) mod S \<noteq> w"
        using ring_other_index [OF w _ j] by simp
      have "ring ! ((w + j) mod S) = ring ! ((w + 1 + (j - 1)) mod S)"
        using False by simp
      also have "\<dots> = (if j - 1 < m then xs ! (m - 1 - (j - 1)) else 0)"
        using ring [of "j - 1"] j by simp
      also have "\<dots> = (if j < Suc m then xs ! (Suc m - 1 - j) else 0)"
        using False by (auto simp add: less_Suc_eq_le Suc_le_eq)
      finally show ?thesis
        using neq by simp
    qed
    then show ?thesis
      unfolding idx .
  qed
  have out': "out[m := ring ! ?idx] ! k =
                (if k < Suc m then (if k < ?D then 0 else xs ! (k - ?D)) else xs ! k)"
    if k: "k < length xs" for k
    using out [OF k] delayed lout k by (cases "k = m") (auto simp add: less_Suc_eq)
  have w': "(w + S - 1) mod S < S"
    using w by simp
  show ?thesis
    using w' len lout ring' out'
    by (simp add: step channelInv_def)
qed

lemma channelInv_loop:
  assumes "N < S" and "m \<le> length xs"
  shows "channelInv S (loopDelay S N) xs m (for_each m (channelStep S N 0) (replicate S 0, 0, 0, xs))"
  using assms(2)
proof (induction m)
  case 0
  show ?case
    using assms(1) by (simp add: for_each_0 channelInv_def)
next
  case (Suc m)
  then show ?case
    using channelInv_step [OF _ assms(1), of xs m] by (simp add: for_each_Suc)
qed

lemma channel_loop_output:
  assumes "N < S" and "n \<le> length xs"
  shows "snd (snd (snd (for_each n (channelStep S N 0) (replicate S 0, 0, 0, xs))))
           = take n (replicate (loopDelay S N) 0 @ xs) @ drop n xs"
proof -
  have inv: "channelInv S (loopDelay S N) xs n
               (for_each n (channelStep S N 0) (replicate S 0, 0, 0, xs))"
    using channelInv_loop [OF assms] .
  show ?thesis
    using inv assms(2)
    by (intro nth_equalityI)
       (auto simp add: channelInv_def case_prod_beta nth_append min_def)
qed

lemma freshDelayLine_fields:
  assumes "N \<le> maxDelay"
  shows "totalSize (freshDelayLine C maxDelay N) = max 4 (maxDelay + 2)"
    and "delayInt (freshDelayLine C maxDelay N) = N"
    and "delayFrac (freshDelayLine C maxDelay N) = 0"
    and "bufferData (freshDelayLine C maxDelay N) = replicate C (replicate (max 4 (maxDelay + 2)) 0)"
    and "writePos (freshDelayLine C maxDelay N) = replicate C 0"
    and "readPos (freshDelayLine C maxDelay N) = replicate C 0"
  using assms
  by (simp_all add: freshDelayLine_def DelayLine_setDelay_def DelayLine_prepare_def
      DelayLine_init_def DelayLine_setMaximumDelayInSamples_def DelayLine_reset_def
      jlimit_def Let_def)

lemma channelsInv_step:
  assumes inv: "channelsInv S N C n b0 c st" and N: "N < S"
    and c: "c < C" "c < length b0" and n: "n \<le> length (b0 ! c)"
  shows "channelsInv S N C n b0 (Suc c)
           (for_each n (\<lambda>i state. preDelaySample c i state) st)"
proof -
  let ?D = "loopDelay S N"
  obtain d b where st: "st = (d, b)"
    by (cases st)
  have d: "totalSize d = S" "delayInt d = N" "delayFrac d = 0"
    and lens: "length (bufferData d) = C" "length (writePos d) = C" "length (readPos d) = C"
    and fresh: "\<And>ch. ch < C \<Longrightarrow> c \<le> ch \<Longrightarrow>
                  bufferData d ! ch = replicate S 0 \<and> writePos d ! ch = 0 \<and> readPos d ! ch = 0"
    and lb: "length b = length b0"
    and b: "\<And>ch. ch < length b0 \<Longrightarrow> b ! ch = (if ch < c then delayedBy ?D n (b0 ! ch) else b0 ! ch)"
    using inv by (simp_all add: channelsInv_def st)
  have here: "bufferData d ! c = replicate S 0" "writePos d ! c = 0" "readPos d ! c = 0"
    "b ! c = b0 ! c"
    using fresh [of c] b [of c] c by simp_all
  have id: "liftChannel c d b (replicate S 0, 0, 0, b0 ! c) = (d, b)"
    using liftChannel_id [of c d b] by (simp add: here)
  have "for_each n (\<lambda>i state. preDelaySample c i state) (d, b) =
          liftChannel c d b (for_each n (channelStep S N 0) (replicate S 0, 0, 0, b0 ! c))"
    using channel_loop_lift [of c d b n "(replicate S 0, 0, 0, b0 ! c)"] c lens lb
    by (simp add: id d)
  moreover obtain ring w r out where
    loop: "for_each n (channelStep S N 0) (replicate S 0, 0, 0, b0 ! c) = (ring, w, r, out)"
    by (metis prod_cases4)
  moreover have "out = delayedBy ?D n (b0 ! c)"
    using channel_loop_output [OF N n] loop by (simp add: delayedBy_def)
  ultimately have res: "for_each n (\<lambda>i state. preDelaySample c i state) st =
      (d\<lparr>bufferData := (bufferData d)[c := ring], writePos := (writePos d)[c := w],
         readPos := (readPos d)[c := r]\<rparr>, b[c := delayedBy ?D n (b0 ! c)])"
    by (simp add: st liftChannel_def)
  show ?thesis
    using d lens fresh lb b c
    by (auto simp add: res channelsInv_def nth_list_update less_Suc_eq)
qed

lemma channelsInv_loop:
  assumes N: "N < S" and C: "numChannels \<le> C" "numChannels \<le> length b0"
    and n: "\<And>ch. ch < numChannels \<Longrightarrow> n \<le> length (b0 ! ch)"
    and init: "channelsInv S N C n b0 0 (d0, b0)"
  shows "channelsInv S N C n b0 numChannels (applyPreDelay d0 b0 numChannels n)"
  unfolding applyPreDelay_def
  using C n
proof (induction numChannels)
  case 0
  show ?case using init by (simp add: for_each_0)
next
  case (Suc k)
  have "channelsInv S N C n b0 k
          (for_each k (\<lambda>ch. for_each n (\<lambda>i state. preDelaySample ch i state)) (d0, b0))"
    using Suc by simp
  then show ?case
    using channelsInv_step [OF _ N, of C n b0 k] Suc.prems
    by (simp add: for_each_Suc)
qed

text \<open>
  One block on a fresh line whose delay is the whole number \<open>N\<close>: every channel comes out
  delayed by the delay the loop gives, zeros entering.
\<close>

lemma preDelay_response_buffer:
  assumes "N \<le> maxDelay" and "numChannels \<le> lineChannels"
    and len: "length buffer = numChannels"
    and fit: "\<And>c. c < numChannels \<Longrightarrow> numSamples \<le> length (buffer ! c)"
  shows
    "snd (applyPreDelay (freshDelayLine lineChannels maxDelay N) buffer numChannels numSamples)
       = map (delayedBy (loopDelay (max 4 (maxDelay + 2)) N) numSamples) buffer"
proof -
  let ?S = "max 4 (maxDelay + 2)"
  let ?d = "freshDelayLine lineChannels maxDelay N"
  let ?out = "snd (applyPreDelay ?d buffer numChannels numSamples)"
  have S: "N < ?S"
    using assms(1) by simp
  have init: "channelsInv ?S N lineChannels numSamples buffer 0 (?d, buffer)"
    by (simp add: channelsInv_def freshDelayLine_fields [OF assms(1)])
  have chans: "numChannels \<le> length buffer"
    using len by simp
  have inv: "channelsInv ?S N lineChannels numSamples buffer numChannels
          (applyPreDelay ?d buffer numChannels numSamples)"
    using S assms(2) chans fit init by (rule channelsInv_loop)
  have lout: "length ?out = length buffer"
    using inv by (simp add: channelsInv_def case_prod_beta)
  have out: "?out ! ch = delayedBy (loopDelay ?S N) numSamples (buffer ! ch)"
    if "ch < numChannels" for ch
    using inv that len by (simp add: channelsInv_def case_prod_beta)
  show ?thesis
    using lout out len by (intro nth_equalityI) simp_all
qed

lemma preDelay_response_block:
  assumes "N \<le> maxDelay" and "numChannels \<le> lineChannels"
    and "hasSize buffer numChannels numSamples"
  shows
    "snd (applyPreDelay (freshDelayLine lineChannels maxDelay N) buffer numChannels numSamples)
       = map (\<lambda>c. take numSamples (replicate (loopDelay (max 4 (maxDelay + 2)) N) 0 @ c)) buffer"
proof -
  have len: "length buffer = numChannels"
    and lens: "\<And>c. c < numChannels \<Longrightarrow> length (buffer ! c) = numSamples"
    using assms(3) by (simp_all add: hasSize_def list_all_length)
  have fit: "numSamples \<le> length (buffer ! c)" if "c < numChannels" for c
    using lens [OF that] by simp
  have "snd (applyPreDelay (freshDelayLine lineChannels maxDelay N) buffer numChannels numSamples)
          = map (delayedBy (loopDelay (max 4 (maxDelay + 2)) N) numSamples) buffer"
    using assms(1,2) len fit by (rule preDelay_response_buffer)
  also have "\<dots> = map (\<lambda>c. take numSamples (replicate (loopDelay (max 4 (maxDelay + 2)) N) 0 @ c))
                      buffer"
    using len lens by (intro nth_equalityI) (simp_all add: delayedBy_def)
  finally show ?thesis .
qed

lemma preDelay_response:
  assumes "N \<le> maxDelay" and "numChannels \<le> lineChannels"
    and "hasSize buffer numChannels numSamples" and "ch < numChannels"
  shows
    "snd (applyPreDelay (freshDelayLine lineChannels maxDelay N) buffer numChannels numSamples) ! ch
       = take numSamples (replicate (loopDelay (max 4 (maxDelay + 2)) N) 0 @ buffer ! ch)"
proof -
  have "ch < length buffer"
    using assms(3,4) by (simp add: hasSize_def)
  then show ?thesis
    by (simp add: preDelay_response_block [OF assms(1-3)])
qed

lemma impulse_delayed:
  assumes "N \<le> m"
  shows "take (Suc m) (replicate N 0 @ impulse m) = replicate N 0 @ impulse (m - N)"
proof -
  have "take (Suc m) (replicate N 0 @ impulse m) = replicate N 0 @ take (Suc m - N) (impulse m)"
    using assms by simp
  also have "take (Suc m - N) (impulse m) = impulse (m - N)"
    using assms by (simp add: impulse_def Suc_diff_le min_def)
  finally show ?thesis .
qed

lemma take_silence:
  assumes "n \<le> S"
  shows "take n (replicate S (0::real) @ ys) = replicate n 0"
  using assms by (simp add: min_def)

text \<open>
  The lines the two reverbs process with after \<open>prepare\<close>, when the pre-delay time is a whole
  number \<open>N\<close> of samples: fresh lines with that delay. With the defaults (30 ms at 44.1 kHz)
  the delay is 1323 samples.
\<close>

lemma CinematicReverb_prepare_line:
  assumes "cinematic_preDelayLine s = DelayLine_init 192000"
    and "preDelayMs s * sampleRate / 1000 = real N"
  shows "cinematic_preDelayLine (CinematicReverb_prepare sampleRate maxBlockSize s)
           = freshDelayLine 2 192000 N"
  using assms by (simp add: CinematicReverb_prepare_def freshDelayLine_def)

lemma DelayLine_resize_prepared:
  "DelayLine_setMaximumDelayInSamples m (DelayLine_prepare C (DelayLine_init m0))
     = DelayLine_prepare C (DelayLine_init m)"
  by (simp add: DelayLine_setMaximumDelayInSamples_def DelayLine_prepare_def DelayLine_init_def
      DelayLine_reset_def Let_def)

lemma EpicSpaceReverb_prepare_line:
  assumes "epic_preDelayLine s = DelayLine_init m0"
    and "preDelay s * sampleRate / 1000 = real N"
  shows "epic_preDelayLine (EpicSpaceReverb_prepare sampleRate maximumBlockSize numChannels s)
           = freshDelayLine numChannels (nat \<lfloor>sampleRate * 0.2\<rfloor>) N"
  using assms
  by (simp add: EpicSpaceReverb_prepare_def EpicSpaceReverb_updatePreDelay_def Let_def
      DelayLine_resize_prepared freshDelayLine_def)

lemma CinematicReverb_default_line:
  "cinematic_preDelayLine (CinematicReverb_prepare 44100 512 (CinematicReverb_init r))
     = freshDelayLine 2 192000 1323"
  by (rule CinematicReverb_prepare_line) (simp_all add: CinematicReverb_init_def)

lemma CinematicReverb_process_preDelay_first:
  "CinematicReverb_process reverbProcess s buffer numSamples =
     (let delayed = applyPreDelay (cinematic_preDelayLine s) buffer (length buffer) numSamples;
          wet = processBlock reverbProcess (reverb s) (snd delayed) (length buffer) numSamples
      in (s\<lparr>cinematic_preDelayLine := fst delayed, reverb := fst wet\<rparr>, snd wet))"
  by (simp add: CinematicReverb_process_def Let_def case_prod_beta)

text \<open>
  \<^verbatim>\<open>setPreDelay (0.0f)\<close> is inside the range \<^verbatim>\<open>jlimit (0.0f, 200.0f, ms)\<close> that both reverbs
  accept. Called after \<open>prepare\<close> or before it, it leaves a fresh line whose delay is 0.
\<close>

lemma DelayLine_setDelay_twice:
  "DelayLine_setDelay v (DelayLine_setDelay u d) = DelayLine_setDelay v d"
  by (simp add: DelayLine_setDelay_def Let_def)

lemma DelayLine_prepare_setDelay:
  "DelayLine_prepare C (DelayLine_setDelay u (DelayLine_init m))
     = DelayLine_setDelay u (DelayLine_prepare C (DelayLine_init m))"
  by (simp add: DelayLine_setDelay_def DelayLine_prepare_def DelayLine_init_def
      DelayLine_setMaximumDelayInSamples_def DelayLine_reset_def Let_def)

lemma DelayLine_setDelay_zero_prepared:
  "DelayLine_setDelay 0 (DelayLine_prepare C (DelayLine_init m))
     = DelayLine_prepare C (DelayLine_init m)"
  by (simp add: DelayLine_setDelay_def DelayLine_prepare_def DelayLine_init_def
      DelayLine_setMaximumDelayInSamples_def DelayLine_reset_def jlimit_def Let_def)

lemma CinematicReverb_zero_preDelay_line:
  "cinematic_preDelayLine
     (CinematicReverb_setPreDelay 0
        (CinematicReverb_prepare sampleRate maxBlockSize (CinematicReverb_init r)))
     = freshDelayLine 2 192000 0"
  "cinematic_preDelayLine
     (CinematicReverb_prepare sampleRate maxBlockSize
        (CinematicReverb_setPreDelay 0 (CinematicReverb_init r)))
     = freshDelayLine 2 192000 0"
  by (simp_all add: CinematicReverb_setPreDelay_def CinematicReverb_prepare_def
      CinematicReverb_init_def freshDelayLine_def jlimit_def Let_def
      DelayLine_setDelay_twice DelayLine_prepare_setDelay)

lemma EpicSpaceReverb_zero_preDelay_line:
  "epic_preDelayLine
     (EpicSpaceReverb_setPreDelay 0
        (EpicSpaceReverb_prepare sampleRate maximumBlockSize numChannels EpicSpaceReverb_init))
     = freshDelayLine numChannels (nat \<lfloor>sampleRate * 0.2\<rfloor>) 0"
  "epic_preDelayLine
     (EpicSpaceReverb_prepare sampleRate maximumBlockSize numChannels
        (EpicSpaceReverb_setPreDelay 0 EpicSpaceReverb_init))
     = freshDelayLine numChannels (nat \<lfloor>sampleRate * 0.2\<rfloor>) 0"
  by (simp_all add: EpicSpaceReverb_setPreDelay_def EpicSpaceReverb_prepare_def
      EpicSpaceReverb_updatePreDelay_def EpicSpaceReverb_init_def freshDelayLine_def
      jlimit_def Let_def DelayLine_setDelay_twice DelayLine_prepare_setDelay
      DelayLine_setDelay_zero_prepared DelayLine_resize_prepared)

text \<open>
  For a whole number N of samples with 1 \<le> N \<le> maximum delay the loop does what the
  specification says: every channel of the block comes out delayed by exactly N samples,
  zeros entering, and a unit impulse gives N samples of silence followed by the impulse,
  unscaled.
\<close>

lemma preDelay_impulse_response:
  assumes "1 \<le> N" and "N \<le> maxDelay" and "numChannels \<le> lineChannels"
    and "hasSize buffer numChannels numSamples" and "ch < numChannels"
  shows
    "snd (applyPreDelay (freshDelayLine lineChannels maxDelay N) buffer numChannels numSamples) ! ch
       = take numSamples (replicate N 0 @ buffer ! ch) \<and>
     (buffer ! ch = impulse m \<and> N \<le> m \<longrightarrow>
        snd (applyPreDelay (freshDelayLine lineChannels maxDelay N) buffer numChannels numSamples)
          ! ch = replicate N 0 @ impulse (m - N))"
proof -
  let ?d = "freshDelayLine lineChannels maxDelay N"
  have lens: "length (buffer ! ch) = numSamples"
    using assms(4,5) by (simp add: hasSize_def list_all_length)
  have one: "snd (applyPreDelay ?d buffer numChannels numSamples) ! ch =
               take numSamples (replicate N 0 @ buffer ! ch)"
    using preDelay_response [OF assms(2-5)] assms(1) by (simp add: loopDelay_def)
  have two: "take numSamples (replicate N 0 @ buffer ! ch) = replicate N 0 @ impulse (m - N)"
    if "buffer ! ch = impulse m" "N \<le> m"
  proof -
    have "numSamples = Suc m"
      using lens that(1) by (simp add: impulse_def)
    then show ?thesis
      using impulse_delayed [OF that(2)] that(1) by simp
  qed
  show ?thesis
    using one two by simp
qed

lemma preDelay_example_2:
  "snd (applyPreDelay (freshDelayLine 2 2 2) [impulse 5, [2, 3, 4, 5, 6, 7]] 2 6)
     = [[0, 0, 1, 0, 0, 0], [0, 0, 2, 3, 4, 5]]"
  by code_simp

text \<open>
  On a fresh line of four samples with the delay set to 0, the impulse comes out after four
  samples of silence, not at once; fed in two blocks of three samples, it comes out in the
  second block.
\<close>

lemma preDelay_zero_delay_example:
  "snd (applyPreDelay (freshDelayLine 2 2 0) [impulse 5, [2, 3, 4, 5, 6, 7]] 2 6)
     = [[0, 0, 0, 0, 1, 0], [0, 0, 0, 0, 2, 3]]"
  by code_simp

lemma preDelay_zero_delay_two_blocks:
  "snd (applyPreDelay
          (fst (applyPreDelay (freshDelayLine 2 2 0) [impulse 2, [2, 3, 4]] 2 3))
          [[0, 0, 0], [5, 6, 7]] 2 3)
     = [[0, 1, 0], [0, 2, 3]]"
  by code_simp

lemma delayedBy_silence:
  assumes "n \<le> D" and "n \<le> length xs" and "drop n xs = replicate (length xs - n) 0"
  shows "delayedBy D n xs = replicate (length xs) 0"
proof -
  have "take n (replicate D (0::real) @ xs) = replicate n 0"
    using assms(1) by (rule take_silence)
  then have "delayedBy D n xs = replicate n 0 @ replicate (length xs - n) 0"
    by (simp add: delayedBy_def assms(3))
  also have "\<dots> = replicate (n + (length xs - n)) 0"
    by (simp only: replicate_add)
  finally show ?thesis
    using assms(2) by simp
qed

lemma wet_copy_nth_beyond:
  assumes "n \<le> i"
  shows "(if 1 < C then copyFrom (copyFrom wet 0 buffer 0 n) 1 buffer 1 n
          else copyFrom wet 0 buffer 0 n) ! ch ! i = wet ! ch ! i"
  using assms by (simp add: copyFrom_nth)

text \<open>
  \<^verbatim>\<open>EpicSpaceReverb::process\<close> after \<open>prepare\<close> and \<^verbatim>\<open>setPreDelay (0.0f)\<close>, on a block that
  fits the prepared wet buffer and is no longer than the circular buffer: after the pre-delay
  loop the wet buffer is silence, whatever the block.
\<close>

lemma EpicSpaceReverb_zero_preDelay_stage:
  assumes "hasSize buffer numChannels numSamples" and "1 \<le> numChannels"
    and "numSamples \<le> maximumBlockSize"
    and "numSamples \<le> max 4 (nat \<lfloor>sampleRate * 0.2\<rfloor> + 2)"
  shows "wetBuffer
           (EpicSpaceReverb_preDelayStage
              (EpicSpaceReverb_setPreDelay 0
                 (EpicSpaceReverb_prepare sampleRate maximumBlockSize numChannels
                    EpicSpaceReverb_init))
              buffer)
           = replicate numChannels (replicate maximumBlockSize 0)"
proof -
  let ?s = "EpicSpaceReverb_setPreDelay 0
              (EpicSpaceReverb_prepare sampleRate maximumBlockSize numChannels
                 EpicSpaceReverb_init)"
  let ?S = "max 4 (nat \<lfloor>sampleRate * 0.2\<rfloor> + 2)"
  let ?zeros = "replicate numChannels (replicate maximumBlockSize (0::real))"
  let ?wet = "(if 1 < numChannels
               then copyFrom (copyFrom ?zeros 0 buffer 0 numSamples) 1 buffer 1 numSamples
               else copyFrom ?zeros 0 buffer 0 numSamples)"
  have len: "length buffer = numChannels"
    using assms(1) by (simp add: hasSize_def)
  have n: "getNumSamples buffer = numSamples"
    using assms(1,2) by (cases buffer) (auto simp add: hasSize_def getNumSamples_def)
  have line: "epic_preDelayLine ?s = freshDelayLine numChannels (nat \<lfloor>sampleRate * 0.2\<rfloor>) 0"
    by (rule EpicSpaceReverb_zero_preDelay_line(1))
  have wb: "wetBuffer ?s = ?zeros"
    by (simp add: EpicSpaceReverb_setPreDelay_def EpicSpaceReverb_prepare_def
        EpicSpaceReverb_updatePreDelay_def Let_def)
  have wlen: "length ?wet = numChannels"
    by (simp add: copyFrom_length)
  have clen: "length (?wet ! c) = maximumBlockSize" if "c < numChannels" for c
    using that by (simp add: copyFrom_length_nth)
  have stage: "wetBuffer (EpicSpaceReverb_preDelayStage ?s buffer)
                 = snd (applyPreDelay (freshDelayLine numChannels (nat \<lfloor>sampleRate * 0.2\<rfloor>) 0)
                          ?wet numChannels numSamples)"
    by (simp add: EpicSpaceReverb_preDelayStage_def Let_def case_prod_beta n len line wb)
  have fit: "numSamples \<le> length (?wet ! c)" if "c < numChannels" for c
    using clen [OF that] assms(3) by simp
  have out: "snd (applyPreDelay (freshDelayLine numChannels (nat \<lfloor>sampleRate * 0.2\<rfloor>) 0)
                    ?wet numChannels numSamples)
               = map (delayedBy ?S numSamples) ?wet"
    using preDelay_response_buffer [OF _ _ wlen fit, of 0 "nat \<lfloor>sampleRate * 0.2\<rfloor>" numChannels]
    by (simp add: loopDelay_def)
  have silent: "delayedBy ?S numSamples (?wet ! c) = replicate maximumBlockSize 0"
    if c: "c < numChannels" for c
  proof -
    have "drop numSamples (?wet ! c) = replicate (length (?wet ! c) - numSamples) 0"
      using c clen [OF c]
      by (intro nth_equalityI) (simp_all add: wet_copy_nth_beyond del: One_nat_def)
    then show ?thesis
      using delayedBy_silence [OF assms(4) fit [OF c]] clen [OF c] by simp
  qed
  have "map (delayedBy ?S numSamples) ?wet = ?zeros"
    using wlen silent by (intro nth_equalityI) simp_all
  then show ?thesis
    using stage out by simp
qed

text \<open>
  \<^verbatim>\<open>CinematicReverb::process\<close> after \<open>prepare\<close> and \<^verbatim>\<open>setPreDelay (0.0f)\<close>, on a block of at most
  two channels: what reaches the reverb is the block delayed by 192002 samples.
\<close>

lemma CinematicReverb_zero_preDelay_process:
  assumes "numChannels \<le> 2" and "hasSize buffer numChannels numSamples"
  shows "snd (CinematicReverb_process reverbProcess
                (CinematicReverb_setPreDelay 0
                   (CinematicReverb_prepare sampleRate maxBlockSize (CinematicReverb_init r)))
                buffer numSamples)
           = snd (processBlock reverbProcess r
                    (map (\<lambda>c. take numSamples (replicate 192002 0 @ c)) buffer)
                    numChannels numSamples)"
proof -
  let ?s = "CinematicReverb_setPreDelay 0
              (CinematicReverb_prepare sampleRate maxBlockSize (CinematicReverb_init r))"
  have len: "length buffer = numChannels"
    using assms(2) by (simp add: hasSize_def)
  have rev: "reverb ?s = r"
    by (simp add: CinematicReverb_setPreDelay_def CinematicReverb_prepare_def
        CinematicReverb_init_def Let_def)
  have "snd (applyPreDelay (cinematic_preDelayLine ?s) buffer numChannels numSamples)
          = map (\<lambda>c. take numSamples (replicate 192002 0 @ c)) buffer"
    using preDelay_response_block [OF _ assms, of 0 192000]
    by (simp add: CinematicReverb_zero_preDelay_line(1) loopDelay_def)
  then show ?thesis
    by (simp add: CinematicReverb_process_preDelay_first Let_def len rev)
qed

text \<open>
  Claim C4, at a pre-delay of N = 0 samples, which \<^verbatim>\<open>setPreDelay (0.0f)\<close> sets in both
  reverbs. The claim gives, for a unit impulse, no silence and the impulse at once. The
  loop pops before it pushes: with a delay of 0 it reads the position of the circular buffer
  that the current sample is written to only afterwards, so it returns what was stored there
  one turn of the buffer earlier. On the fresh line every channel of the block comes out
  delayed by the whole length of the circular buffer (the maximum delay plus 2, at least 4:
  192002 samples in \<^verbatim>\<open>CinematicReverb\<close>, 0.2 s of samples plus 2 in \<^verbatim>\<open>EpicSpaceReverb\<close>); a unit
  impulse in a block shorter than that gives a block of silence;
  \<^verbatim>\<open>CinematicReverb::process\<close> hands its reverb the block delayed by 192002 samples, and the
  wet buffer of \<^verbatim>\<open>EpicSpaceReverb::process\<close> is silence after the pre-delay loop.
\<close>

theorem preDelay_zero_delay_response:
  assumes "numChannels \<le> lineChannels" and "hasSize buffer numChannels numSamples"
  shows
    "snd (applyPreDelay (freshDelayLine lineChannels maxDelay 0) buffer numChannels numSamples)
       = map (\<lambda>c. take numSamples (replicate (max 4 (maxDelay + 2)) 0 @ c)) buffer \<and>
     (ch < numChannels \<and> buffer ! ch = impulse m \<and> m < max 4 (maxDelay + 2) \<longrightarrow>
        snd (applyPreDelay (freshDelayLine lineChannels maxDelay 0) buffer numChannels numSamples)
          ! ch = replicate (Suc m) 0 \<and>
        snd (applyPreDelay (freshDelayLine lineChannels maxDelay 0) buffer numChannels numSamples)
          ! ch \<noteq> replicate 0 0 @ impulse m) \<and>
     cinematic_preDelayLine
       (CinematicReverb_setPreDelay 0
          (CinematicReverb_prepare sampleRate maxBlockSize (CinematicReverb_init r)))
       = freshDelayLine 2 192000 0 \<and>
     epic_preDelayLine
       (EpicSpaceReverb_setPreDelay 0
          (EpicSpaceReverb_prepare sampleRate maxBlockSize numChannels EpicSpaceReverb_init))
       = freshDelayLine numChannels (nat \<lfloor>sampleRate * 0.2\<rfloor>) 0 \<and>
     (numChannels \<le> 2 \<longrightarrow>
        snd (CinematicReverb_process reverbProcess
               (CinematicReverb_setPreDelay 0
                  (CinematicReverb_prepare sampleRate maxBlockSize (CinematicReverb_init r)))
               buffer numSamples)
          = snd (processBlock reverbProcess r
                   (map (\<lambda>c. take numSamples (replicate 192002 0 @ c)) buffer)
                   numChannels numSamples)) \<and>
     (1 \<le> numChannels \<and> numSamples \<le> maxBlockSize \<and>
      numSamples \<le> max 4 (nat \<lfloor>sampleRate * 0.2\<rfloor> + 2) \<longrightarrow>
        wetBuffer
          (EpicSpaceReverb_preDelayStage
             (EpicSpaceReverb_setPreDelay 0
                (EpicSpaceReverb_prepare sampleRate maxBlockSize numChannels
                   EpicSpaceReverb_init))
             buffer)
          = replicate numChannels (replicate maxBlockSize 0))"
proof -
  let ?S = "max 4 (maxDelay + 2)"
  let ?out = "snd (applyPreDelay (freshDelayLine lineChannels maxDelay 0) buffer numChannels
                     numSamples)"
  have one: "?out = map (\<lambda>c. take numSamples (replicate ?S 0 @ c)) buffer"
    using preDelay_response_block [OF _ assms, of 0 maxDelay] by (simp add: loopDelay_def)
  have two: "?out ! ch = replicate (Suc m) 0 \<and> ?out ! ch \<noteq> replicate 0 0 @ impulse m"
    if "ch < numChannels" "buffer ! ch = impulse m" "m < ?S"
  proof -
    have "length (buffer ! ch) = numSamples"
      using assms(2) that(1) by (simp add: hasSize_def list_all_length)
    then have n: "numSamples = Suc m"
      using that(2) by (simp add: impulse_def)
    have "?out ! ch = take numSamples (replicate ?S 0 @ buffer ! ch)"
      using preDelay_response [OF _ assms that(1), of 0 maxDelay] by (simp add: loopDelay_def)
    moreover have "Suc m \<le> ?S"
      using that(3) by linarith
    then have "take (Suc m) (replicate ?S 0 @ impulse m) = replicate (Suc m) (0::real)"
      by (rule take_silence)
    ultimately have "?out ! ch = replicate (Suc m) 0"
      using n that(2) by simp
    then show ?thesis
      by (simp add: impulse_def)
  qed
  have three: "cinematic_preDelayLine
       (CinematicReverb_setPreDelay 0
          (CinematicReverb_prepare sampleRate maxBlockSize (CinematicReverb_init r)))
       = freshDelayLine 2 192000 0"
    by (rule CinematicReverb_zero_preDelay_line(1))
  have four: "epic_preDelayLine
       (EpicSpaceReverb_setPreDelay 0
          (EpicSpaceReverb_prepare sampleRate maxBlockSize numChannels EpicSpaceReverb_init))
       = freshDelayLine numChannels (nat \<lfloor>sampleRate * 0.2\<rfloor>) 0"
    by (rule EpicSpaceReverb_zero_preDelay_line(1))
  have five: "snd (CinematicReverb_process reverbProcess
               (CinematicReverb_setPreDelay 0
                  (CinematicReverb_prepare sampleRate maxBlockSize (CinematicReverb_init r)))
               buffer numSamples)
          = snd (processBlock reverbProcess r
                   (map (\<lambda>c. take numSamples (replicate 192002 0 @ c)) buffer)
                   numChannels numSamples)" if "numChannels \<le> 2"
    using that assms(2) by (rule CinematicReverb_zero_preDelay_process)
  have six: "wetBuffer
          (EpicSpaceReverb_preDelayStage
             (EpicSpaceReverb_setPreDelay 0
                (EpicSpaceReverb_prepare sampleRate maxBlockSize numChannels
                   EpicSpaceReverb_init))
             buffer)
          = replicate numChannels (replicate maxBlockSize 0)"
    if "1 \<le> numChannels" "numSamples \<le> maxBlockSize"
      "numSamples \<le> max 4 (nat \<lfloor>sampleRate * 0.2\<rfloor> + 2)"
    using assms(2) that by (rule EpicSpaceReverb_zero_preDelay_stage)
  show ?thesis
    using one two three four five six by blast
qed

text \<open>
  \<^verbatim>\<open>CinematicReverb\<close> prepared at 44.1 kHz, its pre-delay set to 0, with a reverb that passes
  its block through: a block of three samples whose left channel is the unit impulse comes
  out as silence. On a line of four samples the impulse fed in one block of three samples
  comes out in the next block, four samples late.
\<close>

lemma processBlock_example:
  "snd (processBlock (\<lambda>p b. (p, b)) ()
          (map (\<lambda>c. take 3 (replicate 192002 0 @ c)) [impulse 2, [2, 3, 4]]) 2 3)
     = [[0, 0, 0], [0, 0, 0]]"
proof -
  have "(3::nat) \<le> 192002"
    by simp
  then have "take 3 (replicate 192002 (0::real) @ c) = replicate 3 0" for c
    by (rule take_silence)
  then have z: "take 3 (replicate 192002 (0::real) @ c) = [0, 0, 0]" for c
    by (simp add: numeral_3_eq_3)
  have silent: "map (\<lambda>c. take 3 (replicate 192002 (0::real) @ c)) [impulse 2, [2, 3, 4]]
                  = [[0, 0, 0], [0, 0, 0]]"
    by (simp only: z list.map)
  have "snd (processBlock (\<lambda>p b. (p, b)) () [[0, 0, 0], [0, 0, 0 :: real]] 2 3)
          = [[0, 0, 0], [0, 0, 0]]"
    by code_simp
  then show ?thesis
    by (simp only: silent)
qed

theorem preDelay_zero_delay_response_witness:
  "(2::nat) \<le> 2 \<and> hasSize [impulse 2, [2, 3, 4]] 2 3 \<and> (0::nat) < 2 \<and>
   [impulse 2, [2, 3, 4]] ! 0 = impulse 2 \<and> (2::nat) < max 4 (192000 + 2) \<and>
   snd (applyPreDelay (freshDelayLine 2 192000 0) [impulse 2, [2, 3, 4]] 2 3) ! 0 = [0, 0, 0] \<and>
   snd (CinematicReverb_process (\<lambda>p b. (p, b))
          (CinematicReverb_setPreDelay 0 (CinematicReverb_prepare 44100 512 (CinematicReverb_init ())))
          [impulse 2, [2, 3, 4]] 3) = [[0, 0, 0], [0, 0, 0]] \<and>
   (1::nat) \<le> 2 \<and> (3::nat) \<le> 512 \<and> (3::nat) \<le> max 4 (nat \<lfloor>44100 * 0.2 :: real\<rfloor> + 2) \<and>
   wetBuffer
     (EpicSpaceReverb_preDelayStage
        (EpicSpaceReverb_setPreDelay 0 (EpicSpaceReverb_prepare 44100 512 2 EpicSpaceReverb_init))
        [impulse 2, [2, 3, 4]]) = replicate 2 (replicate 512 0) \<and>
   snd (applyPreDelay
          (fst (applyPreDelay (freshDelayLine 2 2 0) [impulse 2, [2, 3, 4]] 2 3))
          [[0, 0, 0], [5, 6, 7]] 2 3) ! 0 = [0, 1, 0]"
proof -
  have h: "hasSize [impulse 2, [2, 3, 4]] 2 3"
    by code_simp
  have i: "(0::nat) < 2 \<and> [impulse 2, [2, 3, 4]] ! 0 = impulse 2 \<and> (2::nat) < max 4 (192000 + 2)"
    by simp
  have p: "(2::nat) \<le> 2"
    by simp
  note inst = preDelay_zero_delay_response
               [OF p h, where maxDelay = 192000 and m = 2 and ch = 0 and sampleRate = 44100
                  and maxBlockSize = 512 and r = "()" and reverbProcess = "\<lambda>p b. (p, b)"]
  have t: "snd (applyPreDelay (freshDelayLine 2 192000 0) [impulse 2, [2, 3, 4]] 2 3) ! 0
             = replicate (Suc 2) 0"
    using inst i by blast
  have c: "snd (CinematicReverb_process (\<lambda>p b. (p, b))
                  (CinematicReverb_setPreDelay 0
                     (CinematicReverb_prepare 44100 512 (CinematicReverb_init ())))
                  [impulse 2, [2, 3, 4]] 3)
             = snd (processBlock (\<lambda>p b. (p, b)) ()
                      (map (\<lambda>c. take 3 (replicate 192002 0 @ c)) [impulse 2, [2, 3, 4]]) 2 3)"
    using inst p by blast
  have v: "snd (applyPreDelay
                  (fst (applyPreDelay (freshDelayLine 2 2 0) [impulse 2, [2, 3, 4]] 2 3))
                  [[0, 0, 0], [5, 6, 7]] 2 3) ! 0 = [0, 1, 0]"
    by (simp add: preDelay_zero_delay_two_blocks)
  have r: "replicate (Suc 2) (0::real) = [0, 0, 0]"
    by (simp add: eval_nat_numeral)
  have e: "snd (CinematicReverb_process (\<lambda>p b. (p, b))
                  (CinematicReverb_setPreDelay 0
                     (CinematicReverb_prepare 44100 512 (CinematicReverb_init ())))
                  [impulse 2, [2, 3, 4]] 3) = [[0, 0, 0], [0, 0, 0]]"
    using c by (simp only: processBlock_example)
  have t': "snd (applyPreDelay (freshDelayLine 2 192000 0) [impulse 2, [2, 3, 4]] 2 3) ! 0
              = [0, 0, 0]"
    using t by (simp only: r)
  have q: "(1::nat) \<le> 2 \<and> (3::nat) \<le> 512 \<and>
           (3::nat) \<le> max 4 (nat \<lfloor>44100 * 0.2 :: real\<rfloor> + 2)"
    by simp
  have w: "wetBuffer
             (EpicSpaceReverb_preDelayStage
                (EpicSpaceReverb_setPreDelay 0
                   (EpicSpaceReverb_prepare 44100 512 2 EpicSpaceReverb_init))
                [impulse 2, [2, 3, 4]]) = replicate 2 (replicate 512 0)"
    using inst q by blast
  show ?thesis
    using h i p t' e v q w by blast
qed

end
